theory Spec2Isabelle
  imports Main "HOL-Library.Sublist"
begin

section \<open>The location request service (app.py)\<close>

text \<open>
  The service is a Flask application with four handlers over two pieces of shared state:
  the in-memory dictionary \<open>REQUEST_DB\<close> and the XML files under \<open>RESULTS_DIR\<close>.
  Each handler is embedded as a function from its inputs and the state to a response (or an
  uncaught exception, which Flask answers with status 500) and the new state.

  What the environment decides is an explicit argument: the identifier drawn by
  \<open>uuid.uuid4()\<close>, what \<open>twilio_client.messages.create\<close> does, and whether writing
  the result file works. The process runs on a POSIX system (\<open>RESULTS_DIR\<close> is an
  absolute POSIX path) and its standard output is encoded as UTF-8.

  Line 6 of the source imports \<open>xml.et.ree.ElementTree\<close>; the module meant is the standard
  \<open>xml.etree.ElementTree\<close>, and \<open>ET\<close> is modelled as that module.
\<close>

subsection \<open>Python strings\<close>

text \<open>
  A Python \<open>str\<close> is the list of its code points. A string decoded from JSON may hold any
  code point, lone surrogates included (\<open>"\ud800"\<close> is accepted by \<open>json.loads\<close>).
  The literals of the program, the identifiers made by \<open>str(uuid.uuid4())\<close> and the texts
  of exceptions are written as Isabelle strings; \<open>py\<close> gives their code points.
\<close>

type_synonym pystr = "nat list"

definition cp :: "char \<Rightarrow> nat" where
  "cp c = of_char c"

definition py :: "string \<Rightarrow> pystr" where
  "py s = map cp s"

definition is_surrogate :: "nat \<Rightarrow> bool" where
  "is_surrogate n = (0xD800 \<le> n \<and> n \<le> 0xDFFF)"

text \<open>The Isabelle string with the given code points, when all of them are below 256.\<close>

definition unpy :: "pystr \<Rightarrow> string option" where
  "unpy p = (if list_all (\<lambda>n. n < 256) p then Some (map char_of p) else None)"

subsection \<open>Decoded JSON values and the Python builtins applied to them\<close>

text \<open>
  \<open>request.json\<close> is whatever the client sent: any JSON value, and a field read with
  \<open>data.get\<close> is any JSON value; \<open>JNull\<close> is Python's \<open>None\<close>, which \<open>get\<close> also returns
  for a missing key. A double is named by its \<open>repr\<close>, which is all the handlers use of it
  besides its truth value.
\<close>

datatype json =
    JNull
  | JBool bool
  | JInt int
  | JFloat string
  | JStr pystr
  | JArr "json list"
  | JObj "(pystr \<times> json) list"

datatype exn = TypeError | AttributeError | UnicodeEncodeError pystr

text \<open>Python's truth value of an object, as tested by \<open>if x\<close> and \<open>not x\<close>.\<close>

fun truthy :: "json \<Rightarrow> bool" where
  "truthy JNull = False"
| "truthy (JBool b) = b"
| "truthy (JInt n) = (n \<noteq> 0)"
| "truthy (JFloat r) = (r \<noteq> ''0.0'' \<and> r \<noteq> ''-0.0'')"
| "truthy (JStr s) = (s \<noteq> [])"
| "truthy (JArr xs) = (xs \<noteq> [])"
| "truthy (JObj kvs) = (kvs \<noteq> [])"

text \<open>\<open>d.get(k)\<close> on a dict, and \<open>data.get(k)\<close> on any value: only a dict has \<open>get\<close>.\<close>

definition dict_get :: "(pystr \<times> json) list \<Rightarrow> string \<Rightarrow> json" where
  "dict_get d k = (case map_of d (py k) of None \<Rightarrow> JNull | Some v \<Rightarrow> v)"

definition json_get :: "json \<Rightarrow> string \<Rightarrow> exn + json" where
  "json_get data k = (case data of JObj kvs \<Rightarrow> Inr (dict_get kvs k) | _ \<Rightarrow> Inl AttributeError)"

text \<open>
  \<open>str\<close> and \<open>repr\<close> of a decoded value. \<open>repr\<close> of a string escapes the characters that
  \<open>str.isprintable\<close> rejects. Below 256 these are the control characters, U+007F to U+00A0
  and U+00AD; the surrogates are never printable. For the other code points from 256 on
  Python asks the Unicode database, which is not modelled: they are taken as printable.
  This only shows in how \<open>repr\<close> writes such a character inside an array or an object.
\<close>

fun digits :: "nat \<Rightarrow> string" where
  "digits n = (if n < 10 then [char_of (48 + n)]
               else digits (n div 10) @ [char_of (48 + n mod 10)])"

declare digits.simps [simp del]

definition str_int :: "int \<Rightarrow> string" where
  "str_int i = (if i < 0 then CHR ''-'' # digits (nat (- i)) else digits (nat i))"

definition hexdigit :: "nat \<Rightarrow> char" where
  "hexdigit d = (if d < 10 then char_of (48 + d) else char_of (87 + d))"

fun hex :: "nat \<Rightarrow> nat \<Rightarrow> string" where
  "hex 0 n = []"
| "hex (Suc w) n = hex w (n div 16) @ [hexdigit (n mod 16)]"

definition isprintable :: "nat \<Rightarrow> bool" where
  "isprintable n =
     (if n < 256 then 32 \<le> n \<and> n \<noteq> 127 \<and> \<not> (128 \<le> n \<and> n \<le> 160) \<and> n \<noteq> 173
      else \<not> is_surrogate n)"

definition repr_char :: "nat \<Rightarrow> nat \<Rightarrow> pystr" where
  "repr_char quote c =
     (if c = quote \<or> c = cp (CHR 0x5C) then [cp (CHR 0x5C), c]
      else if c = 9 then py [CHR 0x5C, CHR ''t'']
      else if c = 10 then py [CHR 0x5C, CHR ''n'']
      else if c = 13 then py [CHR 0x5C, CHR ''r'']
      else if isprintable c then [c]
      else if c < 256 then py ([CHR 0x5C, CHR ''x''] @ hex 2 c)
      else if c < 65536 then py ([CHR 0x5C, CHR ''u''] @ hex 4 c)
      else py ([CHR 0x5C, CHR ''U''] @ hex 8 c))"

definition repr_str :: "pystr \<Rightarrow> pystr" where
  "repr_str s =
     (let quote = (if cp (CHR 0x27) \<in> set s \<and> cp (CHR 0x22) \<notin> set s
                   then cp (CHR 0x22) else cp (CHR 0x27))
      in quote # concat (map (repr_char quote) s) @ [quote])"

fun join_comma :: "pystr list \<Rightarrow> pystr" where
  "join_comma [] = []"
| "join_comma [x] = x"
| "join_comma (x # y # ys) = x @ py '', '' @ join_comma (y # ys)"

fun py_repr :: "json \<Rightarrow> pystr" where
  "py_repr JNull = py ''None''"
| "py_repr (JBool b) = (if b then py ''True'' else py ''False'')"
| "py_repr (JInt i) = py (str_int i)"
| "py_repr (JFloat r) = py r"
| "py_repr (JStr s) = repr_str s"
| "py_repr (JArr xs) = py ''['' @ join_comma (map py_repr xs) @ py '']''"
| "py_repr (JObj kvs) =
     py ''{'' @ join_comma (map (\<lambda>kv. repr_str (fst kv) @ py '': '' @ py_repr (snd kv)) kvs)
       @ py ''}''"

definition py_str :: "json \<Rightarrow> pystr" where
  "py_str v = (case v of JStr s \<Rightarrow> s | _ \<Rightarrow> py_repr v)"

text \<open>
  \<open>print(text)\<close> encodes the text for standard output. UTF-8 has no encoding for a lone
  surrogate, so the call raises \<open>UnicodeEncodeError txt\<close> on a text that holds one, and
  prints otherwise. \<open>str\<close> of that exception names the first run of surrogates.
\<close>

definition print_raises :: "pystr \<Rightarrow> bool" where
  "print_raises txt = list_ex is_surrogate txt"

definition unicode_error_text :: "pystr \<Rightarrow> string" where
  "unicode_error_text txt =
     (let start = length (takeWhile (\<lambda>n. \<not> is_surrogate n) txt);
          bad = takeWhile is_surrogate (dropWhile (\<lambda>n. \<not> is_surrogate n) txt)
      in if length bad = 1
         then CHR 0x27 # ''utf-8'' @ CHR 0x27 # '' codec can't encode character '' @
              [CHR 0x27, CHR 0x5C, CHR ''u''] @ hex 4 (hd bad) @ CHR 0x27 # '' in position '' @
              digits start @ '': surrogates not allowed''
         else CHR 0x27 # ''utf-8'' @ CHR 0x27 # '' codec can't encode characters in position '' @
              digits start @ ''-'' @ digits (start + length bad - 1) @
              '': surrogates not allowed'')"

subsection \<open>ElementTree: elements and \<open>ET.tostring(root, encoding='unicode')\<close>\<close>

text \<open>
  An element has a tag, a text (any object may be assigned to \<open>.text\<close>; \<open>JNull\<close> is the
  initial \<open>None\<close>) and its sub-elements in order. The tags of this program are literals.
  No element has attributes or a tail.
\<close>

datatype element = Element (el_tag: string) (el_text: json) (el_children: "element list")

text \<open>\<open>text.replace(old, new)\<close> for a one-character \<open>old\<close>.\<close>

definition replace_char :: "nat \<Rightarrow> pystr \<Rightarrow> pystr \<Rightarrow> pystr" where
  "replace_char old new s = concat (map (\<lambda>c. if c = old then new else [c]) s)"

text \<open>
  \<open>_escape_cdata\<close>: the three replacements in the library's order. A text that is not a
  \<open>str\<close> ends in \<open>TypeError\<close>: either the \<open>in\<close> test or \<open>replace\<close> fails and the library
  raises its serialization error, or the object comes back unchanged and the
  \<open>StringIO\<close> writer rejects it.
\<close>

definition escape_text :: "pystr \<Rightarrow> pystr" where
  "escape_text s =
     replace_char (cp CHR ''>'') (py ''&gt;'')
       (replace_char (cp CHR ''<'') (py ''&lt;'')
         (replace_char (cp CHR ''&'') (py ''&amp;'') s))"

definition escape_cdata :: "json \<Rightarrow> exn + pystr" where
  "escape_cdata t = (case t of JStr s \<Rightarrow> Inr (escape_text s) | _ \<Rightarrow> Inl TypeError)"

text \<open>The start tag, the end tag and the empty-element tag as \<open>_serialize_xml\<close> writes them.\<close>

definition start_tag :: "string \<Rightarrow> pystr" where
  "start_tag tg = py ''<'' @ py tg @ py ''>''"

definition end_tag :: "string \<Rightarrow> pystr" where
  "end_tag tg = py ''</'' @ py tg @ py ''>''"

definition empty_elem_tag :: "string \<Rightarrow> pystr" where
  "empty_elem_tag tg = py ''<'' @ py tg @ py '' />''"

text \<open>
  \<open>_serialize_xml\<close> with \<open>short_empty_elements=True\<close>: an element with a false text and no
  sub-element is written \<open><tag />\<close>.
\<close>

fun serialize_xml :: "element \<Rightarrow> exn + pystr"
  and serialize_all :: "element list \<Rightarrow> exn + pystr" where
  "serialize_xml (Element tg txt kids) =
     (if truthy txt \<or> kids \<noteq> [] then
        (case (if truthy txt then escape_cdata txt else Inr []) of
           Inl x \<Rightarrow> Inl x
         | Inr t \<Rightarrow>
            (case serialize_all kids of
               Inl x \<Rightarrow> Inl x
             | Inr k \<Rightarrow> Inr (start_tag tg @ t @ k @ end_tag tg)))
      else Inr (empty_elem_tag tg))"
| "serialize_all [] = Inr []"
| "serialize_all (e # es) =
     (case serialize_xml e of
        Inl x \<Rightarrow> Inl x
      | Inr a \<Rightarrow> (case serialize_all es of Inl x \<Rightarrow> Inl x | Inr b \<Rightarrow> Inr (a @ b)))"

definition tostring :: "element \<Rightarrow> exn + pystr" where
  "tostring root = serialize_xml root"

subsection \<open>\<open>generate_xml_response\<close>\<close>

text \<open>
  Lines 42 to 53 build the tree, line 55 serializes it. \<open>location.get\<close> exists only on a
  dict: any other true \<open>location\<close> raises \<open>AttributeError\<close>. The status is one of the
  program's literals.
\<close>

definition location_request :: "pystr \<Rightarrow> string \<Rightarrow> json \<Rightarrow> json \<Rightarrow> exn + element" where
  "location_request request_id status location error_msg =
     (let head_els = [Element ''RequestID'' (JStr request_id) [],
                      Element ''Status'' (JStr (py status)) []]
      in
      if status = ''completed'' \<and> truthy location then
        (case json_get location ''lat'' of
           Inl x \<Rightarrow> Inl x
         | Inr lat \<Rightarrow>
            (case json_get location ''lon'' of
               Inl x \<Rightarrow> Inl x
             | Inr lon \<Rightarrow>
                Inr (Element ''LocationRequest'' JNull
                       (head_els @
                        [Element ''Coordinates'' JNull
                           [Element ''Latitude'' (JStr (py_str lat)) [],
                            Element ''Longitude'' (JStr (py_str lon)) []]]))))
      else if status = ''denied'' \<and> truthy error_msg then
        Inr (Element ''LocationRequest'' JNull (head_els @ [Element ''Message'' error_msg []]))
      else if status = ''pending'' then
        Inr (Element ''LocationRequest'' JNull
               (head_els @
                [Element ''Message''
                   (JStr (py ''Location has not been provided by the user yet.'')) []]))
      else Inr (Element ''LocationRequest'' JNull head_els))"

definition generate_xml_response :: "pystr \<Rightarrow> string \<Rightarrow> json \<Rightarrow> json \<Rightarrow> exn + pystr" where
  "generate_xml_response request_id status location error_msg =
     (case location_request request_id status location error_msg of
        Inl x \<Rightarrow> Inl x
      | Inr root \<Rightarrow> tostring root)"

subsection \<open>State: \<open>REQUEST_DB\<close> and the files under \<open>RESULTS_DIR\<close>\<close>

text \<open>
  The only line that adds a key to \<open>REQUEST_DB\<close> is line 74, with \<open>str(uuid.uuid4())\<close>:
  the keys are identifiers, written as Isabelle strings.
\<close>

record entry =
  status :: string

text \<open>
  A path that exists holds either a document, given by the text its bytes decode to, or
  something whose read raises (a directory, bytes that are not UTF-8, a file without read
  permission), with the exception's text.
\<close>

datatype fs_entry = Document pystr | Unreadable string

record state =
  REQUEST_DB :: "string \<rightharpoonup> entry"
  files :: "pystr \<rightharpoonup> fs_entry"

definition RESULTS_DIR :: string where
  "RESULTS_DIR = ''/data/location_results''"

text \<open>\<open>os.path.join(a, p)\<close> for a non-empty \<open>a\<close> that does not end in a slash.\<close>

definition path_join :: "pystr \<Rightarrow> pystr \<Rightarrow> pystr" where
  "path_join a p =
     (case p of c # _ \<Rightarrow> if c = cp CHR ''/'' then p else a @ py ''/'' @ p | [] \<Rightarrow> a @ py ''/'')"

definition filepath :: "pystr \<Rightarrow> pystr" where
  "filepath request_id = path_join (py RESULTS_DIR) (request_id @ py ''.xml'')"

text \<open>
  \<open>request_id in REQUEST_DB\<close> for a string that came from outside: it is a key when its
  code points are those of a key.
\<close>

definition find_request :: "(string \<rightharpoonup> entry) \<Rightarrow> pystr \<Rightarrow> (string \<times> entry) option" where
  "find_request db request_id =
     (case unpy request_id of
        None \<Rightarrow> None
      | Some k \<Rightarrow> (case db k of None \<Rightarrow> None | Some e \<Rightarrow> Some (k, e)))"

datatype body =
    Jsonify "(string \<times> pystr) list"
  | Xml pystr
  | Html string
  | Consent_page pystr

type_synonym response = "body \<times> nat"

subsection \<open>\<open>POST /request-location\<close>\<close>

datatype send_outcome = Sent string | Send_raises string

definition rstrip_slash :: "string \<Rightarrow> string" where
  "rstrip_slash s = rev (dropWhile (\<lambda>c. c = CHR ''/'') (rev s))"

definition message_body :: "string \<Rightarrow> string" where
  "message_body consent_url =
     ''Please share your location by clicking the link. '' @
     ''An internet connection (Wi-Fi or mobile data) is required.'' @
     [CHR 0x0A, CHR 0x0A] @ ''Click here: '' @ consent_url"

text \<open>
  \<open>twilio_client\<close> says whether the client was initialised at start-up; \<open>send body to\<close> is
  \<open>twilio_client.messages.create\<close> with the configured sender; \<open>uuid4\<close> is the identifier
  drawn by this call. \<open>Sent sid\<close> carries the SID of the message, \<open>Send_raises err\<close> the
  text of the exception. Inside the \<open>try\<close>, the \<open>print\<close> of line 90 can raise as well, and
  the handler of line 97 catches that too; the \<open>print\<close> of line 98 is outside any \<open>try\<close>.
\<close>

definition send_failed :: "string \<Rightarrow> string \<Rightarrow> state \<Rightarrow> (exn + response) \<times> state" where
  "send_failed request_id err s1 =
     (if print_raises (py (''Error sending Twilio SMS: '' @ err))
      then (Inl (UnicodeEncodeError (py (''Error sending Twilio SMS: '' @ err))), s1)
      else
        (Inr (Jsonify [(''error'', py (''Failed to send SMS: '' @ err))], 500),
         if request_id \<in> dom (REQUEST_DB s1)
         then s1\<lparr>REQUEST_DB := (REQUEST_DB s1)(request_id := None)\<rparr>
         else s1))"

definition request_location ::
  "bool \<Rightarrow> string \<Rightarrow> (string \<Rightarrow> json \<Rightarrow> send_outcome) \<Rightarrow> string \<Rightarrow> json
    \<Rightarrow> state \<Rightarrow> (exn + response) \<times> state" where
  "request_location twilio_client url_root send uuid4 data s =
     (if \<not> twilio_client then
        (Inr (Jsonify [(''error'', py ''Twilio client not initialized. Check credentials.'')], 500), s)
      else
        (case json_get data ''phone_number'' of
           Inl x \<Rightarrow> (Inl x, s)
         | Inr phone_number \<Rightarrow>
            if \<not> truthy phone_number then
              (Inr (Jsonify [(''error'', py (CHR 0x27 # ''phone_number'' @ CHR 0x27 # '' is required''))],
                    400), s)
            else
              let request_id = uuid4;
                  s1 = s\<lparr>REQUEST_DB := (REQUEST_DB s)(request_id \<mapsto> \<lparr>status = ''pending''\<rparr>)\<rparr>;
                  base_url = rstrip_slash url_root;
                  consent_url = base_url @ ''/consent/'' @ request_id
              in
              (case send (message_body consent_url) phone_number of
                 Sent sid \<Rightarrow>
                   let line = py ''SMS sent to '' @ py_str phone_number @ py ('', SID: '' @ sid) in
                   if print_raises line then send_failed request_id (unicode_error_text line) s1
                   else
                     (Inr (Jsonify [(''status'', py ''pending''),
                                    (''message'', py ''Location request SMS sent to '' @
                                                  py_str phone_number @ py ''.''),
                                    (''request_id'', py request_id)], 202), s1)
               | Send_raises err \<Rightarrow> send_failed request_id err s1)))"

subsection \<open>\<open>GET /consent/<request_id>\<close>\<close>

definition get_consent :: "pystr \<Rightarrow> state \<Rightarrow> (exn + response) \<times> state" where
  "get_consent request_id s =
     (case find_request (REQUEST_DB s) request_id of
        None \<Rightarrow> (Inr (Html ''<h1>Invalid or expired request.</h1>'', 404), s)
      | Some (k, e) \<Rightarrow>
          if status e \<noteq> ''pending''
          then (Inr (Html ''<h1>This location request has already been completed.</h1>'', 200), s)
          else (Inr (Consent_page request_id, 200), s))"

subsection \<open>\<open>POST /submit-location\<close>\<close>

text \<open>
  \<open>request_id not in REQUEST_DB\<close> hashes the token: an array or an object is unhashable and
  the test raises \<open>TypeError\<close>. The keys are strings, so no other non-string is a key.
\<close>

fun hashable :: "json \<Rightarrow> bool" where
  "hashable (JArr xs) = False"
| "hashable (JObj kvs) = False"
| "hashable v = True"

definition lookup_request :: "(string \<rightharpoonup> entry) \<Rightarrow> json \<Rightarrow> exn + (string \<times> entry) option" where
  "lookup_request db v =
     (if \<not> hashable v then Inl TypeError
      else (case v of JStr request_id \<Rightarrow> Inr (find_request db request_id) | _ \<Rightarrow> Inr None))"

text \<open>
  Lines 195 to 203, for a file system that works (\<open>Write_ok\<close>), on which \<open>makedirs\<close> or
  \<open>open\<close> raises (\<open>Write_raises None\<close>, nothing changes), or on which the file is opened,
  which creates or truncates it, and writing raises, leaving \<open>p\<close> (\<open>Write_raises (Some p)\<close>).
  Once the file is open, \<open>f.write\<close> encodes the whole document first: a document with a
  lone surrogate raises there and the file stays empty. The exception is caught and only
  printed; lines 201 and 203 print the path, made from a key, and an exception's text.
\<close>

datatype write_outcome = Write_ok | Write_raises "string option"

definition write_result :: "pystr \<Rightarrow> pystr \<Rightarrow> write_outcome \<Rightarrow> state \<Rightarrow> state" where
  "write_result path xml_data wo s =
     (case wo of
        Write_raises None \<Rightarrow> s
      | Write_raises (Some p) \<Rightarrow>
          if list_ex is_surrogate xml_data then s\<lparr>files := (files s)(path \<mapsto> Document [])\<rparr>
          else s\<lparr>files := (files s)(path \<mapsto> Document (py p))\<rparr>
      | Write_ok \<Rightarrow>
          if list_ex is_surrogate xml_data then s\<lparr>files := (files s)(path \<mapsto> Document [])\<rparr>
          else s\<lparr>files := (files s)(path \<mapsto> Document xml_data)\<rparr>)"

definition set_status :: "string \<Rightarrow> string \<Rightarrow> state \<Rightarrow> state" where
  "set_status request_id st s =
     (case REQUEST_DB s request_id of
        None \<Rightarrow> s
      | Some e \<Rightarrow> s\<lparr>REQUEST_DB := (REQUEST_DB s)(request_id \<mapsto> e\<lparr>status := st\<rparr>)\<rparr>)"

definition received :: response where
  "received = (Jsonify [(''status'', py ''received'')], 200)"

text \<open>
  The status is written (lines 187 and 192) before the \<open>print\<close> of lines 188 and 193, which
  is outside the \<open>try\<close>: when it raises, the handler ends there with the status already set.
\<close>

definition submit_location ::
  "json \<Rightarrow> write_outcome \<Rightarrow> state \<Rightarrow> (exn + response) \<times> state" where
  "submit_location data wo s =
     (case data of
        JObj kvs \<Rightarrow>
          (let request_id = dict_get kvs ''token'';
               location = dict_get kvs ''location'';
               error = dict_get kvs ''error''
           in
           if \<not> truthy request_id then (Inr (Jsonify [(''error'', py ''Invalid token'')], 400), s)
           else
             (case lookup_request (REQUEST_DB s) request_id of
                Inl x \<Rightarrow> (Inl x, s)
              | Inr None \<Rightarrow> (Inr (Jsonify [(''error'', py ''Invalid token'')], 400), s)
              | Inr (Some (k, e)) \<Rightarrow>
                  if status e \<noteq> ''pending''
                  then (Inr (Jsonify [(''message'', py ''Request already processed'')], 200), s)
                  else if truthy location then
                    (case generate_xml_response (py k) ''completed'' location JNull of
                       Inl x \<Rightarrow> (Inl x, s)
                     | Inr xml_data \<Rightarrow>
                         let s1 = set_status k ''completed'' s;
                             line = py (''Location received for '' @ k @ '': '') @ py_str location
                         in if print_raises line then (Inl (UnicodeEncodeError line), s1)
                            else (Inr received, write_result (filepath (py k)) xml_data wo s1))
                  else
                    (case generate_xml_response (py k) ''denied'' JNull error of
                       Inl x \<Rightarrow> (Inl x, s)
                     | Inr xml_data \<Rightarrow>
                         let s1 = set_status k ''denied'' s;
                             line = py (''Location denied for '' @ k @ '': '') @ py_str error
                         in if print_raises line then (Inl (UnicodeEncodeError line), s1)
                            else (Inr received, write_result (filepath (py k)) xml_data wo s1))))
      | _ \<Rightarrow> (Inl AttributeError, s))"

subsection \<open>\<open>GET /get-location/<request_id>\<close>\<close>

text \<open>
  Line 212 opens the file in text mode, so \<open>f.read()\<close> gives the text with every
  \<open>\r\n\<close> and every other \<open>\r\<close> replaced by \<open>\n\<close>.
\<close>

fun universal_newlines :: "pystr \<Rightarrow> pystr" where
  "universal_newlines [] = []"
| "universal_newlines [c] = [if c = cp (CHR 0x0D) then cp (CHR 0x0A) else c]"
| "universal_newlines (c # d # cs) =
     (if c = cp (CHR 0x0D) \<and> d = cp (CHR 0x0A) then cp (CHR 0x0A) # universal_newlines cs
      else if c = cp (CHR 0x0D) then cp (CHR 0x0A) # universal_newlines (d # cs)
      else c # universal_newlines (d # cs))"

definition get_location_xml :: "pystr \<Rightarrow> state \<Rightarrow> (exn + response) \<times> state" where
  "get_location_xml request_id s =
     (case files s (filepath request_id) of
        Some (Document content) \<Rightarrow> (Inr (Xml (universal_newlines content), 200), s)
      | Some (Unreadable e) \<Rightarrow> (Inr (Html (''Error reading result file: '' @ e), 500), s)
      | None \<Rightarrow>
          if (case find_request (REQUEST_DB s) request_id of
                None \<Rightarrow> False | Some (k, e) \<Rightarrow> status e = ''pending'')
          then
            (case generate_xml_response request_id ''pending'' JNull JNull of
               Inl x \<Rightarrow> (Inl x, s)
             | Inr xml \<Rightarrow> (Inr (Xml xml, 200), s))
          else
            (case generate_xml_response request_id ''error'' JNull
                    (JStr (py ''Request ID not found.'')) of
               Inl x \<Rightarrow> (Inl x, s)
             | Inr xml \<Rightarrow> (Inr (Xml xml, 404), s)))"

subsection \<open>Runs of the service\<close>

text \<open>
  A request to the service is one of the four routes with its inputs and with what the
  environment does during it. Handlers run one after the other; \<open>run\<close> threads the state
  through a list of requests, whatever each one answers.
\<close>

datatype event =
    Request_location string "string \<Rightarrow> json \<Rightarrow> send_outcome" string json
  | Get_consent pystr
  | Submit_location json write_outcome
  | Get_location_xml pystr

fun handle :: "bool \<Rightarrow> event \<Rightarrow> state \<Rightarrow> (exn + response) \<times> state" where
  "handle twilio_client (Request_location url_root send uuid4 data) s =
     request_location twilio_client url_root send uuid4 data s"
| "handle twilio_client (Get_consent request_id) s = get_consent request_id s"
| "handle twilio_client (Submit_location data wo) s = submit_location data wo s"
| "handle twilio_client (Get_location_xml request_id) s = get_location_xml request_id s"

fun run :: "bool \<Rightarrow> event list \<Rightarrow> state \<Rightarrow> state" where
  "run twilio_client [] s = s"
| "run twilio_client (ev # evs) s = run twilio_client evs (snd (handle twilio_client ev s))"

text \<open>
  \<open>uuid.uuid4()\<close> draws 122 random bits. \<open>fresh_uuids\<close> says that along a run no draw
  repeats an identifier that is a key of \<open>REQUEST_DB\<close> at the time of the draw.
\<close>

fun fresh_uuid :: "event \<Rightarrow> state \<Rightarrow> bool" where
  "fresh_uuid (Request_location url_root send uuid4 data) s = (REQUEST_DB s uuid4 = None)"
| "fresh_uuid ev s = True"

fun fresh_uuids :: "bool \<Rightarrow> event list \<Rightarrow> state \<Rightarrow> bool" where
  "fresh_uuids twilio_client [] s = True"
| "fresh_uuids twilio_client (ev # evs) s =
     (fresh_uuid ev s \<and> fresh_uuids twilio_client evs (snd (handle twilio_client ev s)))"

text \<open>The moves of a status the specification allows: none, or from pending to a final one.\<close>

definition advances :: "string \<Rightarrow> string \<Rightarrow> bool" where
  "advances a b = (b = a \<or> (a = ''pending'' \<and> (b = ''completed'' \<or> b = ''denied'')))"

subsection \<open>The request body as the specification types it\<close>




subsection \<open>Reading the documents\<close>

text \<open>The text \<open>_serialize_xml\<close> writes for an element with a string text and no sub-element.\<close>

definition xml_leaf :: "string \<Rightarrow> pystr \<Rightarrow> pystr" where
  "xml_leaf tg s =
     (if s = [] then empty_elem_tag tg else start_tag tg @ escape_text s @ end_tag tg)"

definition child_tags :: "element \<Rightarrow> string list" where
  "child_tags root = map el_tag (el_children root)"

text \<open>
  Well-formedness, from the XML 1.0 recommendation, for documents without prolog,
  attributes, comments, processing instructions, CDATA sections and character references:
  \<^item> \<open>Char ::= #x9 | #xA | #xD | [#x20-#xD7FF] | [#xE000-#xFFFD] | [#x10000-#x10FFFF]\<close>;
  \<^item> \<open>Name ::= NameStartChar (NameChar)*\<close>;
  \<^item> \<open>CharData\<close>: legal characters other than \<open><\<close> and \<open>&\<close>, without the sequence \<open>]]>\<close>;
  \<^item> \<open>Reference\<close>: one of the five predefined entities;
  \<^item> \<open>content ::= CharData? ((element | Reference) CharData?)*\<close>;
  \<^item> \<open>element ::= EmptyElemTag | STag content ETag\<close>, with the same name in both tags.
\<close>

definition xml_char :: "nat \<Rightarrow> bool" where
  "xml_char n =
     (n = 0x9 \<or> n = 0xA \<or> n = 0xD \<or> (0x20 \<le> n \<and> n \<le> 0xD7FF)
      \<or> (0xE000 \<le> n \<and> n \<le> 0xFFFD) \<or> (0x10000 \<le> n \<and> n \<le> 0x10FFFF))"

definition name_start_char :: "nat \<Rightarrow> bool" where
  "name_start_char n =
     (n = cp CHR '':'' \<or> n = cp CHR ''_''
      \<or> (cp CHR ''A'' \<le> n \<and> n \<le> cp CHR ''Z'') \<or> (cp CHR ''a'' \<le> n \<and> n \<le> cp CHR ''z'')
      \<or> (0xC0 \<le> n \<and> n \<le> 0xD6) \<or> (0xD8 \<le> n \<and> n \<le> 0xF6) \<or> (0xF8 \<le> n \<and> n \<le> 0x2FF)
      \<or> (0x370 \<le> n \<and> n \<le> 0x37D) \<or> (0x37F \<le> n \<and> n \<le> 0x1FFF)
      \<or> (0x200C \<le> n \<and> n \<le> 0x200D) \<or> (0x2070 \<le> n \<and> n \<le> 0x218F)
      \<or> (0x2C00 \<le> n \<and> n \<le> 0x2FEF) \<or> (0x3001 \<le> n \<and> n \<le> 0xD7FF)
      \<or> (0xF900 \<le> n \<and> n \<le> 0xFDCF) \<or> (0xFDF0 \<le> n \<and> n \<le> 0xFFFD)
      \<or> (0x10000 \<le> n \<and> n \<le> 0xEFFFF))"

definition name_char :: "nat \<Rightarrow> bool" where
  "name_char n =
     (name_start_char n \<or> n = cp CHR ''-'' \<or> n = cp CHR ''.''
      \<or> (cp CHR ''0'' \<le> n \<and> n \<le> cp CHR ''9'') \<or> n = 0xB7
      \<or> (0x300 \<le> n \<and> n \<le> 0x36F) \<or> (0x203F \<le> n \<and> n \<le> 0x2040))"

definition xml_name :: "pystr \<Rightarrow> bool" where
  "xml_name n = (case n of [] \<Rightarrow> False | c # cs \<Rightarrow> name_start_char c \<and> list_all name_char cs)"

definition char_data :: "pystr \<Rightarrow> bool" where
  "char_data s =
     (list_all (\<lambda>c. xml_char c \<and> c \<noteq> cp CHR ''<'' \<and> c \<noteq> cp CHR ''&'') s
      \<and> \<not> sublist (py '']]>'') s)"

definition entity_ref :: "pystr \<Rightarrow> bool" where
  "entity_ref r = (r \<in> set [py ''&amp;'', py ''&lt;'', py ''&gt;'', py ''&apos;'', py ''&quot;''])"

inductive wf_content :: "pystr \<Rightarrow> bool" and wf_element :: "pystr \<Rightarrow> bool" where
  text_only: "char_data s \<Longrightarrow> wf_content s"
| then_ref: "char_data s \<Longrightarrow> entity_ref r \<Longrightarrow> wf_content rest \<Longrightarrow> wf_content (s @ r @ rest)"
| then_element: "char_data s \<Longrightarrow> wf_element el \<Longrightarrow> wf_content rest \<Longrightarrow> wf_content (s @ el @ rest)"
| empty_tag: "xml_name n \<Longrightarrow> wf_element (py ''<'' @ n @ py '' />'')"
| tagged: "xml_name n \<Longrightarrow> wf_content c \<Longrightarrow>
           wf_element (py ''<'' @ n @ py ''>'' @ c @ py ''</'' @ n @ py ''>'')"

definition well_formed :: "pystr \<Rightarrow> bool" where
  "well_formed doc = wf_element doc"

subsection \<open>Decoding a document\<close>

text \<open>
  Modelled from the spec: the decoder of section 8 ("\<open>encode \<rightarrow> decode\<close> (parse the produced
  XML) recovers the same latitude/longitude") is not in the source. The one modelled here
  splits the document into tags and texts, takes the text of the first \<open>Latitude\<close> and of
  the first \<open>Longitude\<close> element, replaces the entity references that \<open>_escape_cdata\<close>
  writes, and reads each text with \<open>float\<close>. \<open>markup\<close> is what the document splits into.
\<close>

datatype markup = Tag pystr | Text pystr

text \<open>
  Modelled from the spec: the lexer of the missing decoder. A tag runs from \<open><\<close> to the
  next \<open>>\<close>, a text up to the next \<open><\<close>.
\<close>

function tokens :: "pystr \<Rightarrow> markup list" where
  "tokens [] = []"
| "tokens (c # cs) =
     (if c = cp CHR ''<''
      then Tag (takeWhile (\<lambda>x. x \<noteq> cp CHR ''>'') cs)
             # tokens (drop 1 (dropWhile (\<lambda>x. x \<noteq> cp CHR ''>'') cs))
      else Text (c # takeWhile (\<lambda>x. x \<noteq> cp CHR ''<'') cs)
             # tokens (dropWhile (\<lambda>x. x \<noteq> cp CHR ''<'') cs))"
  by pat_completeness auto
termination
proof (relation "measure length")
  show "wf (measure length)" by simp
next
  fix c :: nat and cs :: pystr
  have "length (drop 1 (dropWhile (\<lambda>x. x \<noteq> cp CHR ''>'') cs)) \<le> length cs"
    using length_dropWhile_le [of "\<lambda>x. x \<noteq> cp CHR ''>''" cs] by simp
  then show "(drop 1 (dropWhile (\<lambda>x. x \<noteq> cp CHR ''>'') cs), c # cs) \<in> measure length"
    by simp
next
  fix c :: nat and cs :: pystr
  have "length (dropWhile (\<lambda>x. x \<noteq> cp CHR ''<'') cs) \<le> length cs"
    by (rule length_dropWhile_le)
  then show "(dropWhile (\<lambda>x. x \<noteq> cp CHR ''<'') cs, c # cs) \<in> measure length"
    by simp
qed

declare tokens.simps [simp del]

text \<open>
  Modelled from the spec: the missing decoder's reading of a text, the inverse of
  \<open>_escape_cdata\<close>: \<open>&lt;\<close>, \<open>&gt;\<close> and \<open>&amp;\<close> stand for \<open><\<close>, \<open>>\<close> and \<open>&\<close>.
\<close>

function unescape :: "pystr \<Rightarrow> pystr" where
  "unescape [] = []"
| "unescape (c # cs) =
     (if c = cp CHR ''&'' \<and> take 3 cs = py ''lt;'' then cp CHR ''<'' # unescape (drop 3 cs)
      else if c = cp CHR ''&'' \<and> take 3 cs = py ''gt;'' then cp CHR ''>'' # unescape (drop 3 cs)
      else if c = cp CHR ''&'' \<and> take 4 cs = py ''amp;'' then cp CHR ''&'' # unescape (drop 4 cs)
      else c # unescape cs)"
  by pat_completeness auto
termination
  by (relation "measure length") simp_all

declare unescape.simps [simp del]

text \<open>
  Modelled from the spec: the text of the first element named \<open>tg\<close> that holds a text and
  nothing else, as the missing decoder finds it.
\<close>

fun element_text :: "string \<Rightarrow> markup list \<Rightarrow> pystr option" where
  "element_text tg (Tag n # Text t # Tag m # rest) =
     (if n = py tg \<and> m = py (CHR ''/'' # tg) then Some (unescape t)
      else element_text tg (Text t # Tag m # rest))"
| "element_text tg (x # rest) = element_text tg rest"
| "element_text tg [] = None"









subsection \<open>States used as examples\<close>

definition no_requests :: state where
  "no_requests = \<lparr>REQUEST_DB = Map.empty, files = Map.empty\<rparr>"

definition one_pending :: state where
  "one_pending = \<lparr>REQUEST_DB = [''t1'' \<mapsto> \<lparr>status = ''pending''\<rparr>], files = Map.empty\<rparr>"

section \<open>Properties\<close>

subsection \<open>Code points of Isabelle strings\<close>

lemma cp_inject [simp]: "(cp a = cp b) = (a = b)"
  by (simp add: cp_def)

lemma cp_less_256: "cp c < 256"
  by (simp add: cp_def)

lemma cp_not_surrogate: "\<not> is_surrogate (cp c)"
  using cp_less_256 [of c] by (simp add: is_surrogate_def)

lemma py_Nil [simp]: "py [] = []"
  by (simp add: py_def)

lemma py_eq_Nil [simp]: "(py s = []) = (s = [])"
  by (simp add: py_def)

lemma py_Cons: "py (c # cs) = cp c # py cs"
  by (simp add: py_def)

lemma py_append: "py (a @ b) = py a @ py b"
  by (simp add: py_def)

lemma py_inject [simp]: "(py a = py b) = (a = b)"
proof -
  have "inj cp" by (rule injI) simp
  then show ?thesis by (simp add: py_def inj_map_eq_map)
qed

lemma py_no_surrogate: "\<not> list_ex is_surrogate (py s)"
  by (simp add: py_def list_ex_iff cp_not_surrogate)

lemma print_raises_py [simp]: "\<not> print_raises (py s)"
  by (simp add: print_raises_def py_no_surrogate)

lemma print_raises_Nil [simp]: "\<not> print_raises []"
  by (simp add: print_raises_def)

lemma print_raises_append: "print_raises (a @ b) = (print_raises a \<or> print_raises b)"
  by (auto simp: print_raises_def list_ex_iff)

lemma unpy_py [simp]: "unpy (py s) = Some s"
proof -
  have "map char_of (map cp s) = s"
    by (induction s) (simp_all add: cp_def)
  then show ?thesis
    by (simp add: unpy_def py_def list_all_iff cp_less_256)
qed

lemma unpy_Some: "unpy p = Some k \<Longrightarrow> p = py k"
proof -
  assume a: "unpy p = Some k"
  then have small: "list_all (\<lambda>n. n < 256) p" and k: "k = map char_of p"
    by (auto simp: unpy_def split: if_splits)
  have "map cp (map char_of p) = p"
    using small by (induction p) (simp_all add: cp_def)
  with k show ?thesis by (simp add: py_def)
qed

lemma find_request_py:
  "find_request db (py k) = (case db k of None \<Rightarrow> None | Some e \<Rightarrow> Some (k, e))"
  by (simp add: find_request_def)

lemma find_request_Some:
  "find_request db p = Some (k, e) \<Longrightarrow> p = py k \<and> db k = Some e"
  by (auto simp: find_request_def split: option.splits dest: unpy_Some)

subsection \<open>What \<open>_escape_cdata\<close> does to a text\<close>

lemma escape_text_Nil: "escape_text [] = []"
  by (simp add: escape_text_def replace_char_def)

lemma escape_text_Cons:
  "escape_text (c # cs) =
     (if c = cp CHR ''&'' then py ''&amp;'' else if c = cp CHR ''<'' then py ''&lt;''
      else if c = cp CHR ''>'' then py ''&gt;'' else [c]) @ escape_text cs"
  by (simp add: escape_text_def replace_char_def py_Cons)

lemma escape_text_eq_Nil [simp]: "(escape_text s = []) = (s = [])"
  by (cases s) (simp_all add: escape_text_Nil escape_text_Cons py_Cons)

lemma escape_text_no_markup:
  "cp CHR ''<'' \<notin> set (escape_text s) \<and> cp CHR ''>'' \<notin> set (escape_text s)"
  by (induction s) (auto simp: escape_text_Nil escape_text_Cons py_Cons)

lemma escape_text_surrogate:
  "list_ex is_surrogate (escape_text s) = list_ex is_surrogate s"
  by (induction s) (auto simp: escape_text_Nil escape_text_Cons py_Cons cp_not_surrogate)

lemma unescape_escape_text: "unescape (escape_text s) = s"
proof (induction s)
  case Nil
  then show ?case by (simp add: escape_text_Nil unescape.simps)
next
  case (Cons c cs)
  consider "c = cp CHR ''&''" | "c = cp CHR ''<''" | "c = cp CHR ''>''"
    | "c \<noteq> cp CHR ''&''" "c \<noteq> cp CHR ''<''" "c \<noteq> cp CHR ''>''" by blast
  then show ?case
  proof cases
    case 1
    with Cons show ?thesis by (simp add: escape_text_Cons py_Cons unescape.simps)
  next
    case 2
    with Cons show ?thesis by (simp add: escape_text_Cons py_Cons unescape.simps)
  next
    case 3
    with Cons show ?thesis by (simp add: escape_text_Cons py_Cons unescape.simps)
  next
    case 4
    with Cons show ?thesis by (simp add: escape_text_Cons unescape.simps)
  qed
qed

subsection \<open>What \<open>generate_xml_response\<close> returns, branch by branch\<close>

lemma serialize_leaf: "serialize_xml (Element tg (JStr s) []) = Inr (xml_leaf tg s)"
  by (simp add: escape_cdata_def xml_leaf_def)

lemma serialize_node:
  "kids \<noteq> [] \<Longrightarrow> serialize_xml (Element tg JNull kids) =
     (case serialize_all kids of Inl x \<Rightarrow> Inl x
      | Inr k \<Rightarrow> Inr (start_tag tg @ k @ end_tag tg))"
  by (simp split: sum.splits)

lemmas gen_defs = generate_xml_response_def location_request_def json_get_def tostring_def

lemma gen_pending:
  "generate_xml_response t ''pending'' loc err =
     Inr (start_tag ''LocationRequest'' @ xml_leaf ''RequestID'' t @
          xml_leaf ''Status'' (py ''pending'') @
          xml_leaf ''Message'' (py ''Location has not been provided by the user yet.'') @
          end_tag ''LocationRequest'')"
  by (simp add: gen_defs serialize_leaf serialize_node del: serialize_xml.simps)

lemma gen_other:
  "st \<noteq> ''completed'' \<Longrightarrow> st \<noteq> ''denied'' \<Longrightarrow> st \<noteq> ''pending'' \<Longrightarrow>
   generate_xml_response t st loc err =
     Inr (start_tag ''LocationRequest'' @ xml_leaf ''RequestID'' t @ xml_leaf ''Status'' (py st) @
          end_tag ''LocationRequest'')"
  by (simp add: gen_defs serialize_leaf serialize_node del: serialize_xml.simps)

lemma gen_completed_no_location:
  "\<not> truthy loc \<Longrightarrow>
   generate_xml_response t ''completed'' loc err =
     Inr (start_tag ''LocationRequest'' @ xml_leaf ''RequestID'' t @
          xml_leaf ''Status'' (py ''completed'') @ end_tag ''LocationRequest'')"
  by (simp add: gen_defs serialize_leaf serialize_node del: serialize_xml.simps)

lemma gen_denied_silent:
  "\<not> truthy err \<Longrightarrow>
   generate_xml_response t ''denied'' loc err =
     Inr (start_tag ''LocationRequest'' @ xml_leaf ''RequestID'' t @
          xml_leaf ''Status'' (py ''denied'') @ end_tag ''LocationRequest'')"
  by (simp add: gen_defs serialize_leaf serialize_node del: serialize_xml.simps)

lemma gen_denied_reason:
  "m \<noteq> [] \<Longrightarrow>
   generate_xml_response t ''denied'' loc (JStr m) =
     Inr (start_tag ''LocationRequest'' @ xml_leaf ''RequestID'' t @
          xml_leaf ''Status'' (py ''denied'') @ xml_leaf ''Message'' m @
          end_tag ''LocationRequest'')"
  by (simp add: gen_defs serialize_leaf serialize_node del: serialize_xml.simps)

lemma gen_denied_raises:
  "truthy err \<Longrightarrow> \<forall>m. err \<noteq> JStr m \<Longrightarrow>
   generate_xml_response t ''denied'' loc err = Inl TypeError"
  by (cases err) (simp_all add: gen_defs serialize_leaf escape_cdata_def)

lemma gen_completed_dict:
  "kvs \<noteq> [] \<Longrightarrow>
   generate_xml_response t ''completed'' (JObj kvs) err =
     Inr (start_tag ''LocationRequest'' @ xml_leaf ''RequestID'' t @
          xml_leaf ''Status'' (py ''completed'') @
          (start_tag ''Coordinates'' @ xml_leaf ''Latitude'' (py_str (dict_get kvs ''lat'')) @
           xml_leaf ''Longitude'' (py_str (dict_get kvs ''lon'')) @ end_tag ''Coordinates'') @
          end_tag ''LocationRequest'')"
  by (simp add: gen_defs serialize_leaf serialize_node del: serialize_xml.simps)

lemma gen_completed_raises:
  "truthy loc \<Longrightarrow> \<forall>kvs. loc \<noteq> JObj kvs \<Longrightarrow>
   generate_xml_response t ''completed'' loc err = Inl AttributeError"
  by (cases loc) (simp_all add: gen_defs)

text \<open>Unfolding these writes a document as one text.\<close>

lemmas doc_simps = py_def start_tag_def end_tag_def empty_elem_tag_def xml_leaf_def
  escape_text_Nil escape_text_Cons

subsection \<open>What the handlers do to the state\<close>

lemma entry_update: "(e::entry)\<lparr>status := st\<rparr> = \<lparr>status = st\<rparr>"
  by (cases e) simp

lemma lookup_known:
  "lookup_request db (JStr (py k)) = Inr (case db k of None \<Rightarrow> None | Some e \<Rightarrow> Some (k, e))"
  by (simp add: lookup_request_def find_request_py)

lemma lookup_request_Some:
  "lookup_request db v = Inr (Some (k, e)) \<Longrightarrow> v = JStr (py k) \<and> db k = Some e"
  by (cases v) (auto simp: lookup_request_def dest: find_request_Some)

lemma lookup_request_Inl:
  "lookup_request db v = Inl x \<Longrightarrow> \<not> hashable v \<and> x = TypeError"
  by (cases v) (auto simp: lookup_request_def)

lemma lookup_request_None:
  "lookup_request db v = Inr None \<Longrightarrow> hashable v \<and> (\<forall>k. v = JStr (py k) \<longrightarrow> db k = None)"
  by (cases v) (auto simp: lookup_request_def find_request_py split: option.splits)

lemma db_write_result: "REQUEST_DB (write_result p d wo s) = REQUEST_DB s"
  by (simp add: write_result_def split: write_outcome.splits option.splits)

lemma files_set_status: "files (set_status t st s) = files s"
  by (simp add: set_status_def split: option.splits)

lemma db_set_status:
  "REQUEST_DB (set_status t st s) =
     (case REQUEST_DB s t of None \<Rightarrow> REQUEST_DB s
      | Some e \<Rightarrow> (REQUEST_DB s)(t \<mapsto> \<lparr>status = st\<rparr>))"
  by (simp add: set_status_def entry_update split: option.splits)

lemma files_write_ok:
  "\<not> list_ex is_surrogate d \<Longrightarrow>
   files (write_result p d Write_ok s) = (files s)(p \<mapsto> Document d)"
  by (simp add: write_result_def)

lemma false_value_prints: "\<not> truthy v \<Longrightarrow> \<not> print_raises (py_str v)"
  by (cases v) (simp_all add: py_str_def print_raises_append)

lemma submit_not_object:
  "\<forall>kvs. data \<noteq> JObj kvs \<Longrightarrow> submit_location data wo s = (Inl AttributeError, s)"
  by (cases data) (simp_all add: submit_location_def)

lemma submit_already_processed:
  assumes "dict_get kvs ''token'' = JStr (py t)" "t \<noteq> []"
    and "REQUEST_DB s t = Some e" "status e \<noteq> ''pending''"
  shows "submit_location (JObj kvs) wo s =
     (Inr (Jsonify [(''message'', py ''Request already processed'')], 200), s)"
  using assms by (simp add: submit_location_def lookup_known)

lemma submit_known_pending:
  assumes "dict_get kvs ''token'' = JStr (py t)" "t \<noteq> []"
    and "REQUEST_DB s t = Some e" "status e = ''pending''"
  shows "submit_location (JObj kvs) wo s =
     (if truthy (dict_get kvs ''location'') then
        (case generate_xml_response (py t) ''completed'' (dict_get kvs ''location'') JNull of
           Inl x \<Rightarrow> (Inl x, s)
         | Inr d \<Rightarrow>
            if print_raises (py (''Location received for '' @ t @ '': '')
                             @ py_str (dict_get kvs ''location''))
            then (Inl (UnicodeEncodeError (py (''Location received for '' @ t @ '': '')
                                           @ py_str (dict_get kvs ''location''))),
                  set_status t ''completed'' s)
            else (Inr received,
                  write_result (filepath (py t)) d wo (set_status t ''completed'' s)))
      else
        (case generate_xml_response (py t) ''denied'' JNull (dict_get kvs ''error'') of
           Inl x \<Rightarrow> (Inl x, s)
         | Inr d \<Rightarrow>
            if print_raises (py (''Location denied for '' @ t @ '': '')
                             @ py_str (dict_get kvs ''error''))
            then (Inl (UnicodeEncodeError (py (''Location denied for '' @ t @ '': '')
                                           @ py_str (dict_get kvs ''error''))),
                  set_status t ''denied'' s)
            else (Inr received,
                  write_result (filepath (py t)) d wo (set_status t ''denied'' s))))"
  using assms by (simp add: submit_location_def lookup_known Let_def split: sum.splits)

text \<open>The ways through lines 174 to 182.\<close>

lemma submit_cases:
  obtains
    (not_object) "\<forall>kvs. data \<noteq> JObj kvs"
      and "submit_location data wo s = (Inl AttributeError, s)"
  | (invalid) kvs where "data = JObj kvs"
      and "submit_location data wo s = (Inr (Jsonify [(''error'', py ''Invalid token'')], 400), s)"
      and "\<forall>k. dict_get kvs ''token'' = JStr (py k) \<and> k \<noteq> [] \<longrightarrow> REQUEST_DB s k = None"
      and "hashable (dict_get kvs ''token'') \<or> \<not> truthy (dict_get kvs ''token'')"
  | (unhashable) kvs where "data = JObj kvs"
      and "submit_location data wo s = (Inl TypeError, s)"
      and "\<not> hashable (dict_get kvs ''token'')" and "truthy (dict_get kvs ''token'')"
  | (processed) kvs k e where "data = JObj kvs"
      and "dict_get kvs ''token'' = JStr (py k)" and "k \<noteq> []"
      and "REQUEST_DB s k = Some e" and "status e \<noteq> ''pending''"
  | (pending) kvs k e where "data = JObj kvs"
      and "dict_get kvs ''token'' = JStr (py k)" and "k \<noteq> []"
      and "REQUEST_DB s k = Some e" and "status e = ''pending''"
proof (cases "\<exists>kvs. data = JObj kvs")
  case False
  then have "\<forall>kvs. data \<noteq> JObj kvs" by blast
  then show ?thesis using not_object submit_not_object by blast
next
  case True
  then obtain kvs where data: "data = JObj kvs" by blast
  show ?thesis
  proof (cases "truthy (dict_get kvs ''token'')")
    case False
    then have "submit_location data wo s = (Inr (Jsonify [(''error'', py ''Invalid token'')], 400), s)"
      by (simp add: submit_location_def data)
    moreover from False
    have "\<forall>k. dict_get kvs ''token'' = JStr (py k) \<and> k \<noteq> [] \<longrightarrow> REQUEST_DB s k = None"
      by auto
    ultimately show ?thesis using False data invalid by blast
  next
    case tr: True
    show ?thesis
    proof (cases "lookup_request (REQUEST_DB s) (dict_get kvs ''token'')")
      case (Inl x)
      then have nh: "\<not> hashable (dict_get kvs ''token'')" and x: "x = TypeError"
        using lookup_request_Inl by blast+
      from tr Inl x have "submit_location data wo s = (Inl TypeError, s)"
        by (simp add: submit_location_def data)
      with nh tr data show ?thesis using unhashable by blast
    next
      case (Inr found)
      show ?thesis
      proof (cases found)
        case None
        with tr Inr
        have "submit_location data wo s = (Inr (Jsonify [(''error'', py ''Invalid token'')], 400), s)"
          by (simp add: submit_location_def data)
        moreover from Inr None
        have "hashable (dict_get kvs ''token'')"
          and "\<forall>k. dict_get kvs ''token'' = JStr (py k) \<longrightarrow> REQUEST_DB s k = None"
          using lookup_request_None by blast+
        ultimately show ?thesis using invalid data by blast
      next
        case (Some ke)
        obtain k e where ke: "ke = (k, e)" by (cases ke)
        from Inr Some ke have tok: "dict_get kvs ''token'' = JStr (py k)"
          and db: "REQUEST_DB s k = Some e"
          using lookup_request_Some by blast+
        from tr tok have ne: "k \<noteq> []" by simp
        show ?thesis
        proof (cases "status e = ''pending''")
          case True
          with tok ne db data show ?thesis using pending by blast
        next
          case False
          with tok ne db data show ?thesis using processed by blast
        qed
      qed
    qed
  qed
qed

text \<open>The denial branch, for an error that can be serialized.\<close>

lemma submit_denied_status:
  assumes tok: "dict_get kvs ''token'' = JStr (py t)" "t \<noteq> []"
    and pend: "REQUEST_DB s t = Some e" "status e = ''pending''"
    and loc: "\<not> truthy (dict_get kvs ''location'')"
    and err: "(\<exists>m. dict_get kvs ''error'' = JStr m) \<or> \<not> truthy (dict_get kvs ''error'')"
  shows "REQUEST_DB (snd (submit_location (JObj kvs) wo s)) = (REQUEST_DB s)(t \<mapsto> \<lparr>status = ''denied''\<rparr>)"
proof -
  note sub = submit_known_pending [OF tok pend, of wo]
  obtain d where d: "generate_xml_response (py t) ''denied'' JNull (dict_get kvs ''error'') = Inr d"
  proof (cases "truthy (dict_get kvs ''error'')")
    case False
    then show ?thesis using that by (simp add: gen_denied_silent)
  next
    case True
    with err obtain m where "dict_get kvs ''error'' = JStr m" "m \<noteq> []" by auto
    then show ?thesis using that by (simp add: gen_denied_reason)
  qed
  show ?thesis
    using sub loc d pend by (simp add: db_write_result db_set_status)
qed

lemma submit_denied_effect:
  assumes tok: "dict_get kvs ''token'' = JStr (py t)" "t \<noteq> []"
    and pend: "REQUEST_DB s t = Some e" "status e = ''pending''"
    and loc: "\<not> truthy (dict_get kvs ''location'')"
    and err: "(dict_get kvs ''error'' = JStr m \<and> \<not> list_ex is_surrogate m)
              \<or> \<not> truthy (dict_get kvs ''error'')"
  shows "fst (submit_location (JObj kvs) wo s) = Inr (Jsonify [(''status'', py ''received'')], 200)"
    and "files (snd (submit_location (JObj kvs) Write_ok s)) (filepath (py t)) =
        Some (Document
          (py ''<LocationRequest><RequestID>'' @ escape_text (py t) @
           py ''</RequestID><Status>denied</Status>'' @
           (if truthy (dict_get kvs ''error'')
            then py ''<Message>'' @ escape_text m @ py ''</Message>'' else []) @
           py ''</LocationRequest>''))"
proof -
  let ?err = "dict_get kvs ''error''"
  let ?doc = "py ''<LocationRequest><RequestID>'' @ escape_text (py t) @
           py ''</RequestID><Status>denied</Status>'' @
           (if truthy ?err then py ''<Message>'' @ escape_text m @ py ''</Message>'' else []) @
           py ''</LocationRequest>''"
  have prints: "\<not> print_raises (py (''Location denied for '' @ t @ '': '') @ py_str ?err)"
  proof (cases "truthy ?err")
    case False
    then show ?thesis by (simp add: print_raises_append false_value_prints)
  next
    case True
    with err have m: "?err = JStr m" and "\<not> list_ex is_surrogate m" by auto
    then have "\<not> print_raises m" by (simp add: print_raises_def)
    with m show ?thesis by (simp add: print_raises_append py_str_def)
  qed
  have gen: "generate_xml_response (py t) ''denied'' JNull ?err = Inr ?doc"
  proof (cases "truthy ?err")
    case False
    then show ?thesis using tok(2) by (simp add: gen_denied_silent doc_simps)
  next
    case True
    with err have m: "?err = JStr m" "m \<noteq> []" by auto
    then show ?thesis using tok(2) by (simp add: gen_denied_reason doc_simps)
  qed
  have clean: "\<not> list_ex is_surrogate ?doc"
  proof (cases "truthy ?err")
    case False
    then show ?thesis by (simp add: py_no_surrogate escape_text_surrogate)
  next
    case True
    with err have "\<not> list_ex is_surrogate m" by auto
    then show ?thesis by (simp add: py_no_surrogate escape_text_surrogate)
  qed
  note sub = submit_known_pending [OF tok pend]
  show "fst (submit_location (JObj kvs) wo s) = Inr (Jsonify [(''status'', py ''received'')], 200)"
    using sub [of wo] loc gen prints by (simp add: received_def)
  show "files (snd (submit_location (JObj kvs) Write_ok s)) (filepath (py t)) = Some (Document ?doc)"
    using sub [of Write_ok] loc gen prints clean by (simp add: files_write_ok)
qed

subsection \<open>Denial without a reason\<close>

text \<open>
  Claim C1, as the code has it. For a submission whose token is known and still pending,
  whose location is false and whose error is false or a string without lone surrogate,
  \<open>submit_location\<close> answers "received", sets the status to denied and, when the write
  works, stores a denied document. The document has a \<open>Message\<close> element holding the
  escaped error exactly when the error is a non-empty string; without an error it has no
  \<open>Message\<close> element at all: line 50 adds the element only for a true \<open>error_msg\<close>, and no
  placeholder text exists.
\<close>

theorem submit_denial_document:
  assumes "dict_get kvs ''token'' = JStr (py t)" and "t \<noteq> []"
    and "REQUEST_DB s t = Some e" and "status e = ''pending''"
    and "\<not> truthy (dict_get kvs ''location'')"
    and "(dict_get kvs ''error'' = JStr m \<and> \<not> list_ex is_surrogate m)
         \<or> \<not> truthy (dict_get kvs ''error'')"
  shows "fst (submit_location (JObj kvs) wo s) = Inr (Jsonify [(''status'', py ''received'')], 200)
    \<and> REQUEST_DB (snd (submit_location (JObj kvs) wo s)) t = Some \<lparr>status = ''denied''\<rparr>
    \<and> files (snd (submit_location (JObj kvs) Write_ok s)) (filepath (py t)) =
        Some (Document
          (py ''<LocationRequest><RequestID>'' @ escape_text (py t) @
           py ''</RequestID><Status>denied</Status>'' @
           (if truthy (dict_get kvs ''error'')
            then py ''<Message>'' @ escape_text m @ py ''</Message>'' else []) @
           py ''</LocationRequest>''))"
proof -
  from assms(6) have "(\<exists>m. dict_get kvs ''error'' = JStr m) \<or> \<not> truthy (dict_get kvs ''error'')"
    by blast
  from submit_denied_status [OF assms(1-5) this, of wo]
  have "REQUEST_DB (snd (submit_location (JObj kvs) wo s)) t = Some \<lparr>status = ''denied''\<rparr>"
    by simp
  with submit_denied_effect [OF assms] show ?thesis by simp
qed

theorem submit_denial_document_witness:
  "dict_get [(py ''token'', JStr (py ''t1'')), (py ''error'', JStr (py ''Permission denied.''))] ''token''
     = JStr (py ''t1'')
   \<and> REQUEST_DB one_pending ''t1'' = Some \<lparr>status = ''pending''\<rparr>
   \<and> \<not> truthy (dict_get [(py ''token'', JStr (py ''t1'')), (py ''error'', JStr (py ''Permission denied.''))]
                  ''location'')
   \<and> \<not> list_ex is_surrogate (py ''Permission denied.'')
   \<and> fst (submit_location
            (JObj [(py ''token'', JStr (py ''t1'')), (py ''error'', JStr (py ''Permission denied.''))])
            (Write_raises None) one_pending) = Inr (Jsonify [(''status'', py ''received'')], 200)
   \<and> REQUEST_DB (snd (submit_location
            (JObj [(py ''token'', JStr (py ''t1'')), (py ''error'', JStr (py ''Permission denied.''))])
            (Write_raises None) one_pending)) ''t1'' = Some \<lparr>status = ''denied''\<rparr>
   \<and> files (snd (submit_location
            (JObj [(py ''token'', JStr (py ''t1'')), (py ''error'', JStr (py ''Permission denied.''))])
            Write_ok one_pending)) (filepath (py ''t1'')) =
       Some (Document (py ''<LocationRequest><RequestID>t1</RequestID><Status>denied</Status><Message>Permission denied.</Message></LocationRequest>''))"
proof -
  let ?kvs = "[(py ''token'', JStr (py ''t1'')), (py ''error'', JStr (py ''Permission denied.''))]"
  have h1: "dict_get ?kvs ''token'' = JStr (py ''t1'')" by (simp add: dict_get_def)
  have h2: "''t1'' \<noteq> []" by simp
  have h3: "REQUEST_DB one_pending ''t1'' = Some \<lparr>status = ''pending''\<rparr>"
    by (simp add: one_pending_def)
  have h4: "status \<lparr>status = ''pending''\<rparr> = ''pending''" by simp
  have h5: "\<not> truthy (dict_get ?kvs ''location'')" by (simp add: dict_get_def)
  have e: "dict_get ?kvs ''error'' = JStr (py ''Permission denied.'')" by (simp add: dict_get_def)
  have c: "\<not> list_ex is_surrogate (py ''Permission denied.'')" by (rule py_no_surrogate)
  from e c have h6: "(dict_get ?kvs ''error'' = JStr (py ''Permission denied.'')
            \<and> \<not> list_ex is_surrogate (py ''Permission denied.''))
            \<or> \<not> truthy (dict_get ?kvs ''error'')" by blast
  have t: "truthy (dict_get ?kvs ''error'')" by (simp add: e)
  have d: "py ''<LocationRequest><RequestID>'' @ escape_text (py ''t1'') @
           py ''</RequestID><Status>denied</Status>'' @
           (py ''<Message>'' @ escape_text (py ''Permission denied.'') @ py ''</Message>'') @
           py ''</LocationRequest>'' =
      py ''<LocationRequest><RequestID>t1</RequestID><Status>denied</Status><Message>Permission denied.</Message></LocationRequest>''"
    by (simp add: doc_simps)
  from submit_denial_document [OF h1 h2 h3 h4 h5 h6, of "Write_raises None"]
  have "fst (submit_location (JObj ?kvs) (Write_raises None) one_pending)
          = Inr (Jsonify [(''status'', py ''received'')], 200)"
    and "REQUEST_DB (snd (submit_location (JObj ?kvs) (Write_raises None) one_pending)) ''t1''
          = Some \<lparr>status = ''denied''\<rparr>"
    and "files (snd (submit_location (JObj ?kvs) Write_ok one_pending)) (filepath (py ''t1'')) =
       Some (Document (py ''<LocationRequest><RequestID>t1</RequestID><Status>denied</Status><Message>Permission denied.</Message></LocationRequest>''))"
    using t d by simp_all
  with h1 h3 h5 c show ?thesis by blast
qed

theorem denial_without_reason_has_no_message:
  "files (snd (submit_location
        (JObj [(py ''token'', JStr (py ''t1'')), (py ''location'', JNull), (py ''error'', JNull)])
        Write_ok one_pending)) (filepath (py ''t1'')) =
     Some (Document (py ''<LocationRequest><RequestID>t1</RequestID><Status>denied</Status></LocationRequest>''))
   \<and> location_request (py ''t1'') ''denied'' JNull JNull =
     Inr (Element ''LocationRequest'' JNull
            [Element ''RequestID'' (JStr (py ''t1'')) [], Element ''Status'' (JStr (py ''denied'')) []])"
proof -
  let ?kvs = "[(py ''token'', JStr (py ''t1'')), (py ''location'', JNull), (py ''error'', JNull)]"
  have h1: "dict_get ?kvs ''token'' = JStr (py ''t1'')" by (simp add: dict_get_def)
  have h3: "REQUEST_DB one_pending ''t1'' = Some \<lparr>status = ''pending''\<rparr>"
    by (simp add: one_pending_def)
  have h5: "\<not> truthy (dict_get ?kvs ''location'')" by (simp add: dict_get_def)
  have h6: "(dict_get ?kvs ''error'' = JStr [] \<and> \<not> list_ex is_surrogate [])
            \<or> \<not> truthy (dict_get ?kvs ''error'')" by (simp add: dict_get_def)
  have e: "\<not> truthy (dict_get ?kvs ''error'')" by (simp add: dict_get_def)
  from submit_denied_effect(2) [OF h1 _ h3 _ h5 h6] e
  have "files (snd (submit_location (JObj ?kvs) Write_ok one_pending)) (filepath (py ''t1'')) =
     Some (Document (py ''<LocationRequest><RequestID>t1</RequestID><Status>denied</Status></LocationRequest>''))"
    by (simp add: doc_simps)
  then show ?thesis by (simp add: location_request_def)
qed

text \<open>
  A reason with a lone surrogate: the status is already denied when the \<open>print\<close> of
  line 193 raises, and nothing is stored.
\<close>

lemma denial_with_lone_surrogate:
  "submit_location
      (JObj [(py ''token'', JStr (py ''t1'')), (py ''error'', JStr [0xD800])]) Write_ok one_pending =
     (Inl (UnicodeEncodeError (py ''Location denied for t1: '' @ [0xD800])),
      set_status ''t1'' ''denied'' one_pending)
   \<and> REQUEST_DB (set_status ''t1'' ''denied'' one_pending) ''t1'' = Some \<lparr>status = ''denied''\<rparr>
   \<and> files (set_status ''t1'' ''denied'' one_pending) (filepath (py ''t1'')) = None"
proof -
  let ?kvs = "[(py ''token'', JStr (py ''t1'')), (py ''error'', JStr [0xD800])]"
  have h1: "dict_get ?kvs ''token'' = JStr (py ''t1'')" by (simp add: dict_get_def)
  have h3: "REQUEST_DB one_pending ''t1'' = Some \<lparr>status = ''pending''\<rparr>"
    by (simp add: one_pending_def)
  have r: "print_raises (py ''Location denied for t1: '' @ [0xD800])"
    by (simp add: print_raises_append) (simp add: print_raises_def is_surrogate_def)
  from submit_known_pending [OF h1 _ h3, of Write_ok] r
  have "submit_location (JObj ?kvs) Write_ok one_pending =
     (Inl (UnicodeEncodeError (py ''Location denied for t1: '' @ [0xD800])),
      set_status ''t1'' ''denied'' one_pending)"
    by (simp add: dict_get_def gen_denied_reason py_str_def)
  then show ?thesis
    by (simp add: db_set_status files_set_status one_pending_def)
qed

subsection \<open>The not-found document\<close>

text \<open>
  Claim C2, at a token that has neither a file nor an entry. \<open>get_location_xml\<close> answers 404
  with a document whose status is error, but the document has no \<open>Message\<close> element:
  line 219 passes \<open>error_msg="Request ID not found."\<close>, and \<open>generate_xml_response\<close> has no
  branch for the status error, so the message is dropped.
\<close>

theorem not_found_document_drops_message:
  "get_location_xml (py ''abc'') no_requests =
     (Inr (Xml (py ''<LocationRequest><RequestID>abc</RequestID><Status>error</Status></LocationRequest>''),
           404),
      no_requests)
   \<and> location_request (py ''abc'') ''error'' JNull (JStr (py ''Request ID not found.'')) =
     Inr (Element ''LocationRequest'' JNull
            [Element ''RequestID'' (JStr (py ''abc'')) [], Element ''Status'' (JStr (py ''error'')) []])"
  by (simp add: get_location_xml_def no_requests_def find_request_py gen_other location_request_def)
     (simp add: doc_simps)

subsection \<open>Submitting twice\<close>









text \<open>
  Outside the types of the specification a first call can raise before anything is written
  and leave the token pending: here the location is the number 5.
\<close>

lemma ill_typed_location_stays_pending:
  "submit_location (JObj [(py ''token'', JStr (py ''t1'')), (py ''location'', JInt 5)])
      Write_ok one_pending = (Inl AttributeError, one_pending)"
proof -
  let ?kvs = "[(py ''token'', JStr (py ''t1'')), (py ''location'', JInt 5)]"
  have h1: "dict_get ?kvs ''token'' = JStr (py ''t1'')" by (simp add: dict_get_def)
  have h3: "REQUEST_DB one_pending ''t1'' = Some \<lparr>status = ''pending''\<rparr>"
    by (simp add: one_pending_def)
  from submit_known_pending [OF h1 _ h3, of Write_ok] show ?thesis
    by (simp add: dict_get_def gen_completed_raises)
qed

subsection \<open>Fetching the result\<close>

lemma get_location_pending:
  assumes "REQUEST_DB s t = Some e" "status e = ''pending''" "files s (filepath (py t)) = None"
  shows "get_location_xml (py t) s =
     (Inr (Xml (start_tag ''LocationRequest'' @ xml_leaf ''RequestID'' (py t) @
                xml_leaf ''Status'' (py ''pending'') @
                xml_leaf ''Message'' (py ''Location has not been provided by the user yet.'') @
                end_tag ''LocationRequest''),
           200), s)"
  using assms by (simp add: get_location_xml_def gen_pending find_request_py)

lemma pending_document:
  "start_tag ''LocationRequest'' @ xml_leaf ''RequestID'' (py t) @
   xml_leaf ''Status'' (py ''pending'') @
   xml_leaf ''Message'' (py ''Location has not been provided by the user yet.'') @
   end_tag ''LocationRequest'' =
   py ''<LocationRequest>'' @
   (if t = [] then py ''<RequestID />''
    else py ''<RequestID>'' @ escape_text (py t) @ py ''</RequestID>'') @
   py ''<Status>pending</Status><Message>Location has not been provided by the user yet.</Message></LocationRequest>''"
proof -
  have a: "xml_leaf ''RequestID'' (py t) =
      (if t = [] then py ''<RequestID />''
       else py ''<RequestID>'' @ escape_text (py t) @ py ''</RequestID>'')"
    by (simp add: xml_leaf_def start_tag_def end_tag_def empty_elem_tag_def py_def)
  have b: "start_tag ''LocationRequest'' = py ''<LocationRequest>''"
    by (simp add: start_tag_def py_def)
  have c: "xml_leaf ''Status'' (py ''pending'') @
      xml_leaf ''Message'' (py ''Location has not been provided by the user yet.'') @
      end_tag ''LocationRequest'' =
      py ''<Status>pending</Status><Message>Location has not been provided by the user yet.</Message></LocationRequest>''"
    by (simp add: doc_simps)
  show ?thesis unfolding a b using c by simp
qed

lemma get_location_file:
  assumes "files s (filepath request_id) = Some (Document content)"
  shows "get_location_xml request_id s = (Inr (Xml (universal_newlines content), 200), s)"
  using assms by (simp add: get_location_xml_def)

lemma universal_newlines_id:
  "cp (CHR 0x0D) \<notin> set content \<Longrightarrow> universal_newlines content = content"
  by (induction content rule: universal_newlines.induct) simp_all

text \<open>The only answer 202 of \<open>request_location\<close> is the one of lines 91 to 95, with the entry added.\<close>

lemma request_location_accepted:
  assumes "fst (request_location twilio_client url_root send uuid4 data s) = Inr (b, 202)"
  shows "snd (request_location twilio_client url_root send uuid4 data s) =
           s\<lparr>REQUEST_DB := (REQUEST_DB s)(uuid4 \<mapsto> \<lparr>status = ''pending''\<rparr>)\<rparr>"
proof (cases "twilio_client")
  case False
  with assms show ?thesis by (simp add: request_location_def)
next
  case tc: True
  show ?thesis
  proof (cases "json_get data ''phone_number''")
    case (Inl x)
    with assms tc show ?thesis by (simp add: request_location_def)
  next
    case (Inr phone_number)
    show ?thesis
    proof (cases "truthy phone_number")
      case False
      with assms tc Inr show ?thesis by (simp add: request_location_def)
    next
      case True
      show ?thesis
      proof (cases "send (message_body (rstrip_slash url_root @ ''/consent/'' @ uuid4)) phone_number")
        case (Sent sid)
        with assms tc Inr True show ?thesis
          by (simp add: request_location_def send_failed_def Let_def split: if_splits)
      next
        case (Send_raises err)
        with assms tc Inr True show ?thesis
          by (simp add: request_location_def send_failed_def Let_def split: if_splits)
      qed
    qed
  qed
qed

text \<open>
  Claim C4, as the code has it. A token whose entry is pending and that has no file gets,
  with status 200, the pending document built from \<open>REQUEST_DB\<close>; this is the state right
  after a \<open>request_location\<close> that answered 202, for an identifier with no file of that
  name. When a document without carriage return is stored under the token's path,
  \<open>get_location_xml\<close> answers 200 with exactly the stored text, whatever \<open>REQUEST_DB\<close> says
  about the token. (The file and the answer are both the UTF-8 encoding of their text, so
  equal texts are equal bytes.)
\<close>

theorem fetch_result_pending_or_stored:
  "(REQUEST_DB s t = Some e \<and> status e = ''pending'' \<and> files s (filepath (py t)) = None \<longrightarrow>
      get_location_xml (py t) s =
        (Inr (Xml (py ''<LocationRequest>'' @
                   (if t = [] then py ''<RequestID />''
                    else py ''<RequestID>'' @ escape_text (py t) @ py ''</RequestID>'') @
                   py ''<Status>pending</Status><Message>Location has not been provided by the user yet.</Message></LocationRequest>''),
              200), s))
   \<and> (fst (request_location twilio_client url_root send u data s) = Inr (b, 202)
       \<and> files s (filepath (py u)) = None \<longrightarrow>
      fst (get_location_xml (py u) (snd (request_location twilio_client url_root send u data s))) =
        Inr (Xml (py ''<LocationRequest>'' @
                  (if u = [] then py ''<RequestID />''
                   else py ''<RequestID>'' @ escape_text (py u) @ py ''</RequestID>'') @
                  py ''<Status>pending</Status><Message>Location has not been provided by the user yet.</Message></LocationRequest>''),
             200))
   \<and> (files s (filepath request_id) = Some (Document content) \<and> cp (CHR 0x0D) \<notin> set content \<longrightarrow>
      get_location_xml request_id s = (Inr (Xml content, 200), s))"
proof (intro conjI impI)
  assume "REQUEST_DB s t = Some e \<and> status e = ''pending'' \<and> files s (filepath (py t)) = None"
  then have "get_location_xml (py t) s =
     (Inr (Xml (start_tag ''LocationRequest'' @ xml_leaf ''RequestID'' (py t) @
                xml_leaf ''Status'' (py ''pending'') @
                xml_leaf ''Message'' (py ''Location has not been provided by the user yet.'') @
                end_tag ''LocationRequest''),
           200), s)"
    by (simp add: get_location_pending)
  then show "get_location_xml (py t) s =
        (Inr (Xml (py ''<LocationRequest>'' @
                   (if t = [] then py ''<RequestID />''
                    else py ''<RequestID>'' @ escape_text (py t) @ py ''</RequestID>'') @
                   py ''<Status>pending</Status><Message>Location has not been provided by the user yet.</Message></LocationRequest>''),
              200), s)"
    unfolding pending_document .
next
  assume a: "fst (request_location twilio_client url_root send u data s) = Inr (b, 202)
       \<and> files s (filepath (py u)) = None"
  let ?s1 = "s\<lparr>REQUEST_DB := (REQUEST_DB s)(u \<mapsto> \<lparr>status = ''pending''\<rparr>)\<rparr>"
  from a have s1: "snd (request_location twilio_client url_root send u data s) = ?s1"
    by (simp add: request_location_accepted)
  have "REQUEST_DB ?s1 u = Some \<lparr>status = ''pending''\<rparr>" by simp
  moreover have "status \<lparr>status = ''pending''\<rparr> = ''pending''" by simp
  moreover from a have "files ?s1 (filepath (py u)) = None" by simp
  ultimately have "get_location_xml (py u) ?s1 =
     (Inr (Xml (start_tag ''LocationRequest'' @ xml_leaf ''RequestID'' (py u) @
                xml_leaf ''Status'' (py ''pending'') @
                xml_leaf ''Message'' (py ''Location has not been provided by the user yet.'') @
                end_tag ''LocationRequest''),
           200), ?s1)"
    by (rule get_location_pending)
  then have "fst (get_location_xml (py u) ?s1) =
        Inr (Xml (py ''<LocationRequest>'' @
                  (if u = [] then py ''<RequestID />''
                   else py ''<RequestID>'' @ escape_text (py u) @ py ''</RequestID>'') @
                  py ''<Status>pending</Status><Message>Location has not been provided by the user yet.</Message></LocationRequest>''),
             200)"
    unfolding pending_document by simp
  with s1 show "fst (get_location_xml (py u) (snd (request_location twilio_client url_root send u data s))) =
        Inr (Xml (py ''<LocationRequest>'' @
                  (if u = [] then py ''<RequestID />''
                   else py ''<RequestID>'' @ escape_text (py u) @ py ''</RequestID>'') @
                  py ''<Status>pending</Status><Message>Location has not been provided by the user yet.</Message></LocationRequest>''),
             200)"
    by simp
next
  assume "files s (filepath request_id) = Some (Document content) \<and> cp (CHR 0x0D) \<notin> set content"
  then show "get_location_xml request_id s = (Inr (Xml content, 200), s)"
    by (simp add: get_location_file universal_newlines_id)
qed

theorem fetch_result_pending_or_stored_witness:
  "REQUEST_DB one_pending ''t1'' = Some \<lparr>status = ''pending''\<rparr>
   \<and> files one_pending (filepath (py ''t1'')) = None
   \<and> get_location_xml (py ''t1'') one_pending =
       (Inr (Xml (py ''<LocationRequest><RequestID>t1</RequestID><Status>pending</Status><Message>Location has not been provided by the user yet.</Message></LocationRequest>''),
             200), one_pending)
   \<and> fst (request_location True ''http://host/'' (\<lambda>b p. Sent ''SM1'') ''t2''
            (JObj [(py ''phone_number'', JStr (py ''+15551234567''))]) one_pending) =
       Inr (Jsonify [(''status'', py ''pending''),
                     (''message'', py ''Location request SMS sent to +15551234567.''),
                     (''request_id'', py ''t2'')], 202)
   \<and> fst (get_location_xml (py ''t2'')
            (snd (request_location True ''http://host/'' (\<lambda>b p. Sent ''SM1'') ''t2''
                    (JObj [(py ''phone_number'', JStr (py ''+15551234567''))]) one_pending))) =
       Inr (Xml (py ''<LocationRequest><RequestID>t2</RequestID><Status>pending</Status><Message>Location has not been provided by the user yet.</Message></LocationRequest>''),
            200)
   \<and> filepath (py ''t1'') = py ''/data/location_results/t1.xml''
   \<and> cp (CHR 0x0D) \<notin> set (py ''<stored/>'')
   \<and> get_location_xml (py ''t1'')
        (one_pending\<lparr>files := [filepath (py ''t1'') \<mapsto> Document (py ''<stored/>'')]\<rparr>) =
       (Inr (Xml (py ''<stored/>''), 200),
        one_pending\<lparr>files := [filepath (py ''t1'') \<mapsto> Document (py ''<stored/>'')]\<rparr>)"
proof -
  let ?data = "JObj [(py ''phone_number'', JStr (py ''+15551234567''))]"
  let ?send = "\<lambda>(b::string) (p::json). Sent ''SM1''"
  let ?b = "Jsonify [(''status'', py ''pending''),
                     (''message'', py ''Location request SMS sent to +15551234567.''),
                     (''request_id'', py ''t2'')]"
  let ?s2 = "one_pending\<lparr>files := [filepath (py ''t1'') \<mapsto> Document (py ''<stored/>'')]\<rparr>"
  have h1: "REQUEST_DB one_pending ''t1'' = Some \<lparr>status = ''pending''\<rparr>
            \<and> status \<lparr>status = ''pending''\<rparr> = ''pending''
            \<and> files one_pending (filepath (py ''t1'')) = None"
    by (simp add: one_pending_def)
  have pr: "\<not> print_raises (py ''SMS sent to '' @ py ''+15551234567'' @ py '', SID: SM1'')"
    by (simp add: print_raises_append)
  have m: "py ''Location request SMS sent to '' @ py ''+15551234567'' @ py ''.'' =
           py ''Location request SMS sent to +15551234567.''"
    by (simp add: py_def)
  have h2: "fst (request_location True ''http://host/'' ?send ''t2'' ?data one_pending) = Inr (?b, 202)"
    using pr m by (simp add: request_location_def json_get_def dict_get_def Let_def py_str_def)
  have h2': "files one_pending (filepath (py ''t2'')) = None" by (simp add: one_pending_def)
  have h3: "files ?s2 (filepath (py ''t1'')) = Some (Document (py ''<stored/>''))" by simp
  have h4: "cp (CHR 0x0D) \<notin> set (py ''<stored/>'')" by (simp add: py_def)
  have e1: "py ''<RequestID>'' @ escape_text (py ''t1'') @ py ''</RequestID>'' = py ''<RequestID>t1</RequestID>''"
    and e2: "py ''<RequestID>'' @ escape_text (py ''t2'') @ py ''</RequestID>'' = py ''<RequestID>t2</RequestID>''"
    by (simp_all add: doc_simps)
  note inst1 = fetch_result_pending_or_stored
    [of one_pending "''t1''" "\<lparr>status = ''pending''\<rparr>" True "''http://host/''" ?send "''t2''" ?data ?b
        "py ''t1''" "py ''<stored/>''"]
  note inst2 = fetch_result_pending_or_stored
    [of ?s2 "''t1''" "\<lparr>status = ''pending''\<rparr>" True "''http://host/''" ?send "''t2''" ?data ?b
        "py ''t1''" "py ''<stored/>''"]
  from inst1 h1 have a0: "get_location_xml (py ''t1'') one_pending =
        (Inr (Xml (py ''<LocationRequest>'' @
                   (if ''t1'' = [] then py ''<RequestID />''
                    else py ''<RequestID>'' @ escape_text (py ''t1'') @ py ''</RequestID>'') @
                   py ''<Status>pending</Status><Message>Location has not been provided by the user yet.</Message></LocationRequest>''),
              200), one_pending)"
    by blast
  have a: "get_location_xml (py ''t1'') one_pending =
       (Inr (Xml (py ''<LocationRequest><RequestID>t1</RequestID><Status>pending</Status><Message>Location has not been provided by the user yet.</Message></LocationRequest>''),
             200), one_pending)"
    unfolding a0 using e1 by (simp add: py_append [symmetric] del: py_inject)
  from inst1 h2 h2' have b0: "fst (get_location_xml (py ''t2'')
            (snd (request_location True ''http://host/'' ?send ''t2'' ?data one_pending))) =
        Inr (Xml (py ''<LocationRequest>'' @
                  (if ''t2'' = [] then py ''<RequestID />''
                   else py ''<RequestID>'' @ escape_text (py ''t2'') @ py ''</RequestID>'') @
                  py ''<Status>pending</Status><Message>Location has not been provided by the user yet.</Message></LocationRequest>''),
             200)"
    by blast
  have b: "fst (get_location_xml (py ''t2'')
            (snd (request_location True ''http://host/'' ?send ''t2'' ?data one_pending))) =
       Inr (Xml (py ''<LocationRequest><RequestID>t2</RequestID><Status>pending</Status><Message>Location has not been provided by the user yet.</Message></LocationRequest>''),
            200)"
    unfolding b0 using e2 by (simp add: py_append [symmetric] del: py_inject)
  from inst2 h3 h4 have c: "get_location_xml (py ''t1'') ?s2 = (Inr (Xml (py ''<stored/>''), 200), ?s2)"
    by blast
  have p: "filepath (py ''t1'') = py ''/data/location_results/t1.xml''"
    by (simp add: filepath_def path_join_def RESULTS_DIR_def py_def)
  from h1 h2 h4 a b c p show ?thesis by blast
qed

text \<open>
  Line 212 reads the file in text mode. A denial whose reason holds a carriage return is
  stored with it (line 200 writes the text as it is) and comes back with a line feed in
  its place.
\<close>

theorem stored_carriage_return_read_as_newline:
  "files (snd (submit_location
        (JObj [(py ''token'', JStr (py ''t1'')), (py ''location'', JNull),
               (py ''error'', JStr (py [CHR ''a'', CHR 0x0D, CHR ''b'']))])
        Write_ok one_pending)) (filepath (py ''t1'')) =
     Some (Document (py (''<LocationRequest><RequestID>t1</RequestID><Status>denied</Status><Message>a''
                         @ [CHR 0x0D] @ ''b</Message></LocationRequest>'')))
   \<and> fst (get_location_xml (py ''t1'') (snd (submit_location
        (JObj [(py ''token'', JStr (py ''t1'')), (py ''location'', JNull),
               (py ''error'', JStr (py [CHR ''a'', CHR 0x0D, CHR ''b'']))])
        Write_ok one_pending))) =
     Inr (Xml (py (''<LocationRequest><RequestID>t1</RequestID><Status>denied</Status><Message>a''
                   @ [CHR 0x0A] @ ''b</Message></LocationRequest>'')), 200)"
proof -
  let ?m = "py [CHR ''a'', CHR 0x0D, CHR ''b'']"
  let ?kvs = "[(py ''token'', JStr (py ''t1'')), (py ''location'', JNull), (py ''error'', JStr ?m)]"
  let ?stored = "py (''<LocationRequest><RequestID>t1</RequestID><Status>denied</Status><Message>a''
                         @ [CHR 0x0D] @ ''b</Message></LocationRequest>'')"
  have h1: "dict_get ?kvs ''token'' = JStr (py ''t1'')" by (simp add: dict_get_def)
  have h3: "REQUEST_DB one_pending ''t1'' = Some \<lparr>status = ''pending''\<rparr>"
    by (simp add: one_pending_def)
  have h5: "\<not> truthy (dict_get ?kvs ''location'')" by (simp add: dict_get_def)
  have e: "dict_get ?kvs ''error'' = JStr ?m" by (simp add: dict_get_def)
  have h6: "(dict_get ?kvs ''error'' = JStr ?m \<and> \<not> list_ex is_surrogate ?m)
            \<or> \<not> truthy (dict_get ?kvs ''error'')"
    using e by (simp add: py_no_surrogate)
  have t: "truthy (dict_get ?kvs ''error'')" by (simp add: e)
  have d: "py ''<LocationRequest><RequestID>'' @ escape_text (py ''t1'') @
           py ''</RequestID><Status>denied</Status>'' @
           (py ''<Message>'' @ escape_text ?m @ py ''</Message>'') @
           py ''</LocationRequest>'' = ?stored"
    by (simp add: doc_simps)
  from submit_denied_effect(2) [OF h1 _ h3 _ h5 h6] t d
  have stored: "files (snd (submit_location (JObj ?kvs) Write_ok one_pending)) (filepath (py ''t1''))
        = Some (Document ?stored)"
    by simp
  have u: "universal_newlines ?stored =
     py (''<LocationRequest><RequestID>t1</RequestID><Status>denied</Status><Message>a''
         @ [CHR 0x0A] @ ''b</Message></LocationRequest>'')"
    by (simp add: py_def)
  from get_location_file [OF stored] u
  have "fst (get_location_xml (py ''t1'') (snd (submit_location (JObj ?kvs) Write_ok one_pending))) =
     Inr (Xml (py (''<LocationRequest><RequestID>t1</RequestID><Status>denied</Status><Message>a''
                   @ [CHR 0x0A] @ ''b</Message></LocationRequest>'')), 200)"
    by simp
  with stored show ?thesis by blast
qed

subsection \<open>Delivery failure\<close>

text \<open>
  Claim C5. When \<open>messages.create\<close> raises, \<open>request_location\<close> answers 500 with the error
  and the entry it created under the drawn identifier is gone; the identifier being fresh
  (not a key before the call), the whole state is as it was before the call.
\<close>

theorem delivery_failure_rolls_back:
  assumes "truthy (dict_get data ''phone_number'')"
    and "send (message_body (rstrip_slash url_root @ ''/consent/'' @ uuid4))
           (dict_get data ''phone_number'') = Send_raises err"
  shows "fst (request_location True url_root send uuid4 (JObj data) s) =
           Inr (Jsonify [(''error'', py (''Failed to send SMS: '' @ err))], 500)
    \<and> REQUEST_DB (snd (request_location True url_root send uuid4 (JObj data) s)) uuid4 = None
    \<and> (REQUEST_DB s uuid4 = None \<longrightarrow> snd (request_location True url_root send uuid4 (JObj data) s) = s)"
proof -
  have r: "request_location True url_root send uuid4 (JObj data) s =
      (Inr (Jsonify [(''error'', py (''Failed to send SMS: '' @ err))], 500),
       s\<lparr>REQUEST_DB := (REQUEST_DB s)(uuid4 := None)\<rparr>)"
    using assms by (simp add: request_location_def send_failed_def json_get_def Let_def)
  have "REQUEST_DB s uuid4 = None \<Longrightarrow> (REQUEST_DB s)(uuid4 := None) = REQUEST_DB s"
    by (simp add: fun_upd_idem)
  then show ?thesis by (simp add: r)
qed

theorem delivery_failure_rolls_back_witness:
  "truthy (dict_get [(py ''phone_number'', JStr (py ''+15551234567''))] ''phone_number'')
   \<and> REQUEST_DB one_pending ''t2'' = None
   \<and> request_location True ''http://host/'' (\<lambda>b p. Send_raises ''timeout'') ''t2''
        (JObj [(py ''phone_number'', JStr (py ''+15551234567''))]) one_pending =
       (Inr (Jsonify [(''error'', py ''Failed to send SMS: timeout'')], 500), one_pending)"
proof -
  let ?data = "[(py ''phone_number'', JStr (py ''+15551234567''))]"
  let ?send = "\<lambda>(b::string) (p::json). Send_raises ''timeout''"
  have h1: "truthy (dict_get ?data ''phone_number'')" by (simp add: dict_get_def)
  have h2: "?send (message_body (rstrip_slash ''http://host/'' @ ''/consent/'' @ ''t2''))
              (dict_get ?data ''phone_number'') = Send_raises ''timeout''" by simp
  have h3: "REQUEST_DB one_pending ''t2'' = None" by (simp add: one_pending_def)
  from delivery_failure_rolls_back [of ?data ?send "''http://host/''" "''t2''" "''timeout''" one_pending, OF h1 h2] h3
  have "request_location True ''http://host/'' ?send ''t2'' (JObj ?data) one_pending =
       (Inr (Jsonify [(''error'', py ''Failed to send SMS: timeout'')], 500), one_pending)"
    by (simp add: prod_eq_iff)
  with h1 h3 show ?thesis by blast
qed

subsection \<open>Unknown tokens\<close>

text \<open>
  A \<open>submit_location\<close> whose body is an object and whose token is not a key of
  \<open>REQUEST_DB\<close> never changes the state. It answers 400 "Invalid token" when the token is
  missing, null, a string, a number, a boolean or an empty array or object.
\<close>

lemma absent_token_rejected:
  assumes "\<forall>k. dict_get kvs ''token'' = JStr (py k) \<longrightarrow> REQUEST_DB s k = None"
  shows "snd (submit_location (JObj kvs) wo s) = s
    \<and> (hashable (dict_get kvs ''token'') \<or> \<not> truthy (dict_get kvs ''token'') \<longrightarrow>
         submit_location (JObj kvs) wo s = (Inr (Jsonify [(''error'', py ''Invalid token'')], 400), s))"
proof (cases rule: submit_cases [of "JObj kvs" wo s])
  case not_object
  then show ?thesis by simp
next
  case (invalid kvs')
  then show ?thesis by simp
next
  case (unhashable kvs')
  then show ?thesis by simp
next
  case (processed kvs' k e)
  with assms show ?thesis by simp
next
  case (pending kvs' k e)
  with assms show ?thesis by simp
qed

lemma absent_token_example:
  "submit_location
     (JObj [(py ''token'', JStr (py ''T2'')), (py ''location'', JNull),
            (py ''error'', JStr (py ''Permission denied.''))])
     Write_ok one_pending =
   (Inr (Jsonify [(''error'', py ''Invalid token'')], 400), one_pending)"
proof -
  let ?kvs = "[(py ''token'', JStr (py ''T2'')), (py ''location'', JNull),
               (py ''error'', JStr (py ''Permission denied.''))]"
  have h: "\<forall>k. dict_get ?kvs ''token'' = JStr (py k) \<longrightarrow> REQUEST_DB one_pending k = None"
    by (simp add: dict_get_def one_pending_def)
  have hh: "hashable (dict_get ?kvs ''token'')" by (simp add: dict_get_def)
  from absent_token_rejected [OF h, of Write_ok] hh show ?thesis by simp
qed

text \<open>
  Claim C6. The claim fails on the code for a token that is a non-empty array (or object):
  nothing is a key of \<open>REQUEST_DB\<close>, so the token is absent from it, but the membership test
  of line 179 hashes the token and raises \<open>TypeError\<close>; the call ends with that exception
  and no "Invalid token" answer. The state is unchanged. Every other absent token gets the
  400 of line 180 (\<open>absent_token_rejected\<close>), and a body that is not an object raises
  \<open>AttributeError\<close> at line 175 (\<open>submit_not_object\<close>).
\<close>

theorem unhashable_token_raises:
  "dom (REQUEST_DB no_requests) = {}
   \<and> submit_location
        (JObj [(py ''token'', JArr [JInt 1]), (py ''location'', JNull),
               (py ''error'', JStr (py ''Permission denied.''))])
        Write_ok no_requests = (Inl TypeError, no_requests)"
  by (simp add: submit_location_def dict_get_def lookup_request_def no_requests_def)

subsection \<open>A location that is present but false\<close>

lemma location_request_coordinates:
  assumes "location_request rid st loc err = Inr root"
  shows "(''Coordinates'' \<in> set (child_tags root)) = (st = ''completed'' \<and> truthy loc)"
proof (cases "st = ''completed'' \<and> truthy loc")
  case True
  with assms obtain kvs where "loc = JObj kvs"
    by (cases loc) (simp_all add: location_request_def json_get_def)
  with True assms show ?thesis
    by (auto simp: location_request_def json_get_def child_tags_def Let_def)
next
  case False
  with assms show ?thesis
    by (auto simp: location_request_def child_tags_def Let_def split: if_splits)
qed

lemma submit_completed_needs_location:
  assumes tok: "dict_get kvs ''token'' = JStr (py t)" "t \<noteq> []"
    and db: "REQUEST_DB s t = Some e" "status e = ''pending''"
    and compl: "REQUEST_DB (snd (submit_location (JObj kvs) wo s)) t = Some \<lparr>status = ''completed''\<rparr>"
  shows "truthy (dict_get kvs ''location'')"
proof (rule ccontr)
  assume loc: "\<not> truthy (dict_get kvs ''location'')"
  note sub = submit_known_pending [OF tok db, of wo]
  have e: "e = \<lparr>status = ''pending''\<rparr>" using db(2) by (cases e) simp
  show False
  proof (cases "generate_xml_response (py t) ''denied'' JNull (dict_get kvs ''error'')")
    case (Inl x)
    with sub loc have "snd (submit_location (JObj kvs) wo s) = s" by simp
    with compl db e show False by simp
  next
    case (Inr d)
    with sub loc have "REQUEST_DB (snd (submit_location (JObj kvs) wo s)) t = Some \<lparr>status = ''denied''\<rparr>"
      using db by (simp add: db_write_result db_set_status)
    with compl show False by simp
  qed
qed

lemma submit_denied_raises:
  assumes tok: "dict_get kvs ''token'' = JStr (py t)" "t \<noteq> []"
    and db: "REQUEST_DB s t = Some e" "status e = ''pending''"
    and loc: "\<not> truthy (dict_get kvs ''location'')"
    and err: "truthy (dict_get kvs ''error'')" "\<forall>m. dict_get kvs ''error'' \<noteq> JStr m"
  shows "submit_location (JObj kvs) wo s = (Inl TypeError, s)"
  using submit_known_pending [OF tok db, of wo] loc err by (simp add: gen_denied_raises)

text \<open>
  Claim C10, as the code has it. For a known pending token and a location that is false
  (null, an empty object, an empty array, zero, an empty string, \<open>false\<close>),
  \<open>submit_location\<close> takes the denial branch. With an error that is a string or false the
  status becomes denied, whatever the write does; with such an error that holds no lone
  surrogate the call answers "received" and, the write working, the stored document is
  the denied one, without \<open>Coordinates\<close>. The status becomes completed only for a true
  location, and the tree built by \<open>generate_xml_response\<close> has a \<open>Coordinates\<close> element
  exactly when the status passed is completed and the location is true.
\<close>

theorem false_location_is_denial:
  assumes "dict_get kvs ''token'' = JStr (py t)" and "t \<noteq> []"
    and "REQUEST_DB s t = Some e" and "status e = ''pending''"
  shows "(\<not> truthy (dict_get kvs ''location'')
          \<and> ((\<exists>x. dict_get kvs ''error'' = JStr x) \<or> \<not> truthy (dict_get kvs ''error'')) \<longrightarrow>
        REQUEST_DB (snd (submit_location (JObj kvs) wo s)) t = Some \<lparr>status = ''denied''\<rparr>)
    \<and> (\<not> truthy (dict_get kvs ''location'')
          \<and> ((dict_get kvs ''error'' = JStr m \<and> \<not> list_ex is_surrogate m)
              \<or> \<not> truthy (dict_get kvs ''error'')) \<longrightarrow>
        fst (submit_location (JObj kvs) wo s) = Inr (Jsonify [(''status'', py ''received'')], 200)
        \<and> files (snd (submit_location (JObj kvs) Write_ok s)) (filepath (py t)) =
            Some (Document
              (py ''<LocationRequest><RequestID>'' @ escape_text (py t) @
               py ''</RequestID><Status>denied</Status>'' @
               (if truthy (dict_get kvs ''error'')
                then py ''<Message>'' @ escape_text m @ py ''</Message>'' else []) @
               py ''</LocationRequest>'')))
    \<and> (REQUEST_DB (snd (submit_location (JObj kvs) wo s)) t = Some \<lparr>status = ''completed''\<rparr> \<longrightarrow>
        truthy (dict_get kvs ''location''))
    \<and> (location_request rid st loc err = Inr root \<longrightarrow>
        (''Coordinates'' \<in> set (child_tags root)) = (st = ''completed'' \<and> truthy loc))"
proof (intro conjI impI)
  assume a: "\<not> truthy (dict_get kvs ''location'')
          \<and> ((\<exists>x. dict_get kvs ''error'' = JStr x) \<or> \<not> truthy (dict_get kvs ''error''))"
  then have loc: "\<not> truthy (dict_get kvs ''location'')"
    and err: "(\<exists>x. dict_get kvs ''error'' = JStr x) \<or> \<not> truthy (dict_get kvs ''error'')"
    by simp_all
  from submit_denied_status [OF assms loc err, of wo]
  show "REQUEST_DB (snd (submit_location (JObj kvs) wo s)) t = Some \<lparr>status = ''denied''\<rparr>"
    by simp
next
  assume a: "\<not> truthy (dict_get kvs ''location'')
          \<and> ((dict_get kvs ''error'' = JStr m \<and> \<not> list_ex is_surrogate m)
              \<or> \<not> truthy (dict_get kvs ''error''))"
  then have loc: "\<not> truthy (dict_get kvs ''location'')"
    and err: "(dict_get kvs ''error'' = JStr m \<and> \<not> list_ex is_surrogate m)
              \<or> \<not> truthy (dict_get kvs ''error'')" by simp_all
  note eff = submit_denied_effect [OF assms loc err]
  show "fst (submit_location (JObj kvs) wo s) = Inr (Jsonify [(''status'', py ''received'')], 200)"
    by (rule eff(1))
  show "files (snd (submit_location (JObj kvs) Write_ok s)) (filepath (py t)) =
            Some (Document
              (py ''<LocationRequest><RequestID>'' @ escape_text (py t) @
               py ''</RequestID><Status>denied</Status>'' @
               (if truthy (dict_get kvs ''error'')
                then py ''<Message>'' @ escape_text m @ py ''</Message>'' else []) @
               py ''</LocationRequest>''))"
    by (rule eff(2))
next
  assume "REQUEST_DB (snd (submit_location (JObj kvs) wo s)) t = Some \<lparr>status = ''completed''\<rparr>"
  with assms show "truthy (dict_get kvs ''location'')"
    by (rule submit_completed_needs_location)
next
  assume "location_request rid st loc err = Inr root"
  then show "(''Coordinates'' \<in> set (child_tags root)) = (st = ''completed'' \<and> truthy loc)"
    by (rule location_request_coordinates)
qed

theorem false_location_is_denial_witness:
  "dict_get [(py ''token'', JStr (py ''t1'')), (py ''location'', JObj []), (py ''error'', JNull)] ''token''
     = JStr (py ''t1'')
   \<and> dict_get [(py ''token'', JStr (py ''t1'')), (py ''location'', JObj []), (py ''error'', JNull)] ''location''
     = JObj []
   \<and> REQUEST_DB one_pending ''t1'' = Some \<lparr>status = ''pending''\<rparr>
   \<and> fst (submit_location
            (JObj [(py ''token'', JStr (py ''t1'')), (py ''location'', JObj []), (py ''error'', JNull)])
            Write_ok one_pending) = Inr (Jsonify [(''status'', py ''received'')], 200)
   \<and> REQUEST_DB (snd (submit_location
            (JObj [(py ''token'', JStr (py ''t1'')), (py ''location'', JObj []), (py ''error'', JNull)])
            Write_ok one_pending)) ''t1'' = Some \<lparr>status = ''denied''\<rparr>
   \<and> files (snd (submit_location
            (JObj [(py ''token'', JStr (py ''t1'')), (py ''location'', JObj []), (py ''error'', JNull)])
            Write_ok one_pending)) (filepath (py ''t1'')) =
       Some (Document (py ''<LocationRequest><RequestID>t1</RequestID><Status>denied</Status></LocationRequest>''))
   \<and> location_request (py ''t1'') ''completed'' (JObj []) JNull =
       Inr (Element ''LocationRequest'' JNull
              [Element ''RequestID'' (JStr (py ''t1'')) [], Element ''Status'' (JStr (py ''completed'')) []])
   \<and> ''Coordinates'' \<notin> set (child_tags (Element ''LocationRequest'' JNull
              [Element ''RequestID'' (JStr (py ''t1'')) [], Element ''Status'' (JStr (py ''completed'')) []]))"
proof -
  let ?kvs = "[(py ''token'', JStr (py ''t1'')), (py ''location'', JObj []), (py ''error'', JNull)]"
  let ?root = "Element ''LocationRequest'' JNull
              [Element ''RequestID'' (JStr (py ''t1'')) [], Element ''Status'' (JStr (py ''completed'')) []]"
  have h1: "dict_get ?kvs ''token'' = JStr (py ''t1'')" by (simp add: dict_get_def)
  have h2: "''t1'' \<noteq> []" by simp
  have h3: "REQUEST_DB one_pending ''t1'' = Some \<lparr>status = ''pending''\<rparr>"
    by (simp add: one_pending_def)
  have h4: "status \<lparr>status = ''pending''\<rparr> = ''pending''" by simp
  have l: "dict_get ?kvs ''location'' = JObj []" and e: "dict_get ?kvs ''error'' = JNull"
    by (simp_all add: dict_get_def)
  have r: "location_request (py ''t1'') ''completed'' (JObj []) JNull = Inr ?root"
    by (simp add: location_request_def)
  have d: "py ''<LocationRequest><RequestID>'' @ escape_text (py ''t1'') @
           py ''</RequestID><Status>denied</Status>'' @ py ''</LocationRequest>'' =
      py ''<LocationRequest><RequestID>t1</RequestID><Status>denied</Status></LocationRequest>''"
    by (simp add: doc_simps)
  note inst = false_location_is_denial [OF h1 h2 h3 h4,
      of Write_ok "[]" "py ''t1''" "''completed''" "JObj []" JNull ?root]
  from inst l e r d have
    "fst (submit_location (JObj ?kvs) Write_ok one_pending) = Inr (Jsonify [(''status'', py ''received'')], 200)"
    "REQUEST_DB (snd (submit_location (JObj ?kvs) Write_ok one_pending)) ''t1'' = Some \<lparr>status = ''denied''\<rparr>"
    "files (snd (submit_location (JObj ?kvs) Write_ok one_pending)) (filepath (py ''t1'')) =
       Some (Document (py ''<LocationRequest><RequestID>t1</RequestID><Status>denied</Status></LocationRequest>''))"
    "''Coordinates'' \<notin> set (child_tags ?root)"
    by simp_all
  with h1 l h3 r show ?thesis by blast
qed

text \<open>
  An empty object as location and the number 5 as error: \<open>_escape_cdata\<close> raises
  \<open>TypeError\<close> at line 191, before the status is written, and the token is still pending.
\<close>

theorem false_location_with_number_as_error_raises:
  "submit_location
     (JObj [(py ''token'', JStr (py ''t1'')), (py ''location'', JObj []), (py ''error'', JInt 5)])
     Write_ok one_pending = (Inl TypeError, one_pending)
   \<and> REQUEST_DB one_pending ''t1'' = Some \<lparr>status = ''pending''\<rparr>"
proof -
  let ?kvs = "[(py ''token'', JStr (py ''t1'')), (py ''location'', JObj []), (py ''error'', JInt 5)]"
  have h1: "dict_get ?kvs ''token'' = JStr (py ''t1'')" by (simp add: dict_get_def)
  have h3: "REQUEST_DB one_pending ''t1'' = Some \<lparr>status = ''pending''\<rparr>"
    by (simp add: one_pending_def)
  from submit_known_pending [OF h1 _ h3, of Write_ok] h3 show ?thesis
    by (simp add: dict_get_def gen_denied_raises)
qed

subsection \<open>The status of a request along a run\<close>

lemma advances_refl: "advances a a"
  by (simp add: advances_def)

lemma advances_trans: "advances a b \<Longrightarrow> advances b c \<Longrightarrow> advances a c"
  by (auto simp: advances_def)

lemma send_failed_other:
  "t \<noteq> uuid4 \<Longrightarrow> REQUEST_DB (snd (send_failed uuid4 err s)) t = REQUEST_DB s t"
  by (simp add: send_failed_def)

lemma request_location_other:
  assumes "t \<noteq> uuid4"
  shows "REQUEST_DB (snd (request_location tc url_root send uuid4 data s)) t = REQUEST_DB s t"
proof (cases "json_get data ''phone_number''")
  case (Inl x)
  then show ?thesis by (simp add: request_location_def)
next
  case (Inr phone_number)
  show ?thesis
  proof (cases "send (message_body (rstrip_slash url_root @ ''/consent/'' @ uuid4)) phone_number")
    case (Sent sid)
    with Inr assms show ?thesis
      by (simp add: request_location_def Let_def send_failed_other)
  next
    case (Send_raises err)
    with Inr assms show ?thesis
      by (simp add: request_location_def Let_def send_failed_other)
  qed
qed

lemma get_consent_state: "snd (get_consent t s) = s"
  by (simp add: get_consent_def split: option.splits)

lemma get_location_xml_state: "snd (get_location_xml t s) = s"
  by (simp add: get_location_xml_def gen_pending gen_other
      split: option.splits fs_entry.splits)

lemma submit_status:
  assumes "REQUEST_DB s t = Some e"
  shows "\<exists>e'. REQUEST_DB (snd (submit_location data wo s)) t = Some e'
              \<and> advances (status e) (status e')"
proof (cases rule: submit_cases [of data wo s])
  case not_object
  with assms show ?thesis by (simp add: advances_refl)
next
  case (invalid kvs)
  with assms show ?thesis by (simp add: advances_refl)
next
  case (unhashable kvs)
  with assms show ?thesis by (simp add: advances_refl)
next
  case (processed kvs k e0)
  with assms show ?thesis by (simp add: submit_already_processed advances_refl)
next
  case (pending kvs k e0)
  note sub = submit_known_pending [OF pending(2-5), of wo]
  have moved: "\<exists>e'. REQUEST_DB s' t = Some e' \<and> advances (status e) (status e')"
    if "st = ''completed'' \<or> st = ''denied''"
      and "REQUEST_DB s' = REQUEST_DB (set_status k st s)" for s' st
  proof (cases "t = k")
    case True
    with assms pending have "status e = ''pending''" by simp
    with True pending that show ?thesis
      by (auto simp: db_set_status advances_def)
  next
    case False
    with assms pending that show ?thesis
      by (simp add: db_set_status advances_refl)
  qed
  show ?thesis
  proof (cases "truthy (dict_get kvs ''location'')")
    case True
    show ?thesis
    proof (cases "generate_xml_response (py k) ''completed'' (dict_get kvs ''location'') JNull")
      case (Inl x)
      with sub True assms pending(1) show ?thesis by (simp add: advances_refl)
    next
      case (Inr d)
      with sub True pending(1)
      have db: "REQUEST_DB (snd (submit_location data wo s)) = REQUEST_DB (set_status k ''completed'' s)"
        by (simp add: db_write_result)
      show ?thesis by (rule moved [OF _ db]) simp
    qed
  next
    case False
    show ?thesis
    proof (cases "generate_xml_response (py k) ''denied'' JNull (dict_get kvs ''error'')")
      case (Inl x)
      with sub False assms pending(1) show ?thesis by (simp add: advances_refl)
    next
      case (Inr d)
      with sub False pending(1)
      have db: "REQUEST_DB (snd (submit_location data wo s)) = REQUEST_DB (set_status k ''denied'' s)"
        by (simp add: db_write_result)
      show ?thesis by (rule moved [OF _ db]) simp
    qed
  qed
qed

lemma handle_status:
  assumes "fresh_uuid ev s" and "REQUEST_DB s t = Some e"
  shows "\<exists>e'. REQUEST_DB (snd (handle tc ev s)) t = Some e' \<and> advances (status e) (status e')"
proof (cases ev)
  case (Request_location url_root send uuid4 data)
  with assms have "t \<noteq> uuid4" by auto
  with Request_location assms show ?thesis
    by (simp add: request_location_other advances_refl)
next
  case (Get_consent request_id)
  with assms show ?thesis by (simp add: get_consent_state advances_refl)
next
  case (Submit_location data wo)
  with assms submit_status [of s t e data wo] show ?thesis by simp
next
  case (Get_location_xml request_id)
  with assms show ?thesis by (simp add: get_location_xml_state advances_refl)
qed

lemma run_status:
  "fresh_uuids tc evs s \<Longrightarrow> REQUEST_DB s t = Some e \<Longrightarrow>
   \<exists>e'. REQUEST_DB (run tc evs s) t = Some e' \<and> advances (status e) (status e')"
proof (induction evs arbitrary: s e)
  case Nil
  then show ?case by (simp add: advances_refl)
next
  case (Cons ev evs)
  from Cons.prems have fr: "fresh_uuid ev s"
    and rest: "fresh_uuids tc evs (snd (handle tc ev s))" by simp_all
  from handle_status [OF fr Cons.prems(2), of tc]
  obtain e1 where e1: "REQUEST_DB (snd (handle tc ev s)) t = Some e1"
    and a1: "advances (status e) (status e1)" by blast
  from Cons.IH [OF rest e1]
  obtain e2 where e2: "REQUEST_DB (run tc evs (snd (handle tc ev s))) t = Some e2"
    and a2: "advances (status e1) (status e2)" by blast
  from a1 a2 have "advances (status e) (status e2)" by (rule advances_trans)
  with e2 show ?case by auto
qed

text \<open>
  Claim C7. Take any state, any token with an entry in it, and any sequence of requests
  (to any of the routes, with any inputs, any outcome of sending and of writing) in which
  each identifier drawn by \<open>uuid4\<close> is not yet a key of \<open>REQUEST_DB\<close>. After the run the
  token still has an entry, and its status is either what it was or has gone from pending
  to completed or denied; an entry whose status was completed or denied is unchanged.
\<close>

theorem status_moves_once:
  assumes "fresh_uuids tc evs s" and "REQUEST_DB s t = Some e"
  shows "(\<exists>e'. REQUEST_DB (run tc evs s) t = Some e'
            \<and> (status e' = status e
               \<or> (status e = ''pending'' \<and> (status e' = ''completed'' \<or> status e' = ''denied''))))
    \<and> (status e = ''completed'' \<or> status e = ''denied'' \<longrightarrow> REQUEST_DB (run tc evs s) t = Some e)"
proof -
  from run_status [OF assms]
  obtain e' where e': "REQUEST_DB (run tc evs s) t = Some e'"
    and adv: "advances (status e) (status e')" by blast
  from adv have moves: "status e' = status e
      \<or> (status e = ''pending'' \<and> (status e' = ''completed'' \<or> status e' = ''denied''))"
    unfolding advances_def .
  have final: "e' = e" if "status e = ''completed'' \<or> status e = ''denied''"
  proof -
    from that have "status e \<noteq> ''pending''" by auto
    with moves have "status e' = status e" by blast
    then show ?thesis by (cases e, cases e') simp
  qed
  from e' moves have "\<exists>e'. REQUEST_DB (run tc evs s) t = Some e'
            \<and> (status e' = status e
               \<or> (status e = ''pending'' \<and> (status e' = ''completed'' \<or> status e' = ''denied'')))"
    by blast
  moreover from e' final
  have "status e = ''completed'' \<or> status e = ''denied'' \<longrightarrow> REQUEST_DB (run tc evs s) t = Some e"
    by blast
  ultimately show ?thesis by blast
qed

theorem status_moves_once_witness:
  "fresh_uuids True
     [Submit_location (JObj [(py ''token'', JStr (py ''t1'')), (py ''error'', JStr (py ''no''))]) Write_ok,
      Request_location ''http://host/'' (\<lambda>b p. Sent ''SM1'') ''t2''
        (JObj [(py ''phone_number'', JStr (py ''+15551234567''))]),
      Submit_location (JObj [(py ''token'', JStr (py ''t1'')),
                             (py ''location'', JObj [(py ''lat'', JInt 1), (py ''lon'', JInt 2)])]) Write_ok]
     one_pending
   \<and> REQUEST_DB one_pending ''t1'' = Some \<lparr>status = ''pending''\<rparr>
   \<and> REQUEST_DB (run True
       [Submit_location (JObj [(py ''token'', JStr (py ''t1'')), (py ''error'', JStr (py ''no''))]) Write_ok,
        Request_location ''http://host/'' (\<lambda>b p. Sent ''SM1'') ''t2''
          (JObj [(py ''phone_number'', JStr (py ''+15551234567''))]),
        Submit_location (JObj [(py ''token'', JStr (py ''t1'')),
                               (py ''location'', JObj [(py ''lat'', JInt 1), (py ''lon'', JInt 2)])]) Write_ok]
       one_pending) ''t1'' = Some \<lparr>status = ''denied''\<rparr>"
proof -
  let ?k1 = "[(py ''token'', JStr (py ''t1'')), (py ''error'', JStr (py ''no''))]"
  let ?k2 = "[(py ''token'', JStr (py ''t1'')),
              (py ''location'', JObj [(py ''lat'', JInt 1), (py ''lon'', JInt 2)])]"
  let ?send = "\<lambda>(b::string) (p::json). Sent ''SM1''"
  let ?phone = "JObj [(py ''phone_number'', JStr (py ''+15551234567''))]"
  let ?evs = "[Submit_location (JObj ?k1) Write_ok,
      Request_location ''http://host/'' ?send ''t2'' ?phone,
      Submit_location (JObj ?k2) Write_ok]"
  let ?s1 = "snd (submit_location (JObj ?k1) Write_ok one_pending)"
  have pend: "REQUEST_DB one_pending ''t1'' = Some \<lparr>status = ''pending''\<rparr>"
    by (simp add: one_pending_def)
  have t1: "dict_get ?k1 ''token'' = JStr (py ''t1'')" by (simp add: dict_get_def)
  have l1: "\<not> truthy (dict_get ?k1 ''location'')" by (simp add: dict_get_def)
  have e1: "(\<exists>m. dict_get ?k1 ''error'' = JStr m) \<or> \<not> truthy (dict_get ?k1 ''error'')"
    by (simp add: dict_get_def)
  from submit_denied_status [OF t1 _ pend _ l1 e1, of Write_ok]
  have db1: "REQUEST_DB ?s1 = [''t1'' \<mapsto> \<lparr>status = ''denied''\<rparr>]"
    by (simp add: one_pending_def)
  have fresh: "fresh_uuids True ?evs one_pending"
    by (simp add: db1)
  let ?s2 = "snd (request_location True ''http://host/'' ?send ''t2'' ?phone ?s1)"
  have db2: "REQUEST_DB ?s2 ''t1'' = Some \<lparr>status = ''denied''\<rparr>"
    by (simp add: request_location_other db1)
  have third: "submit_location (JObj ?k2) Write_ok ?s2 =
      (Inr (Jsonify [(''message'', py ''Request already processed'')], 200), ?s2)"
    by (rule submit_already_processed [where t = "''t1''" and e = "\<lparr>status = ''denied''\<rparr>"])
       (simp_all add: dict_get_def db2)
  have final: "run True ?evs one_pending = ?s2"
    by (simp add: third)
  from status_moves_once [OF fresh pend]
  have "\<exists>e'. REQUEST_DB (run True ?evs one_pending) ''t1'' = Some e'" by blast
  moreover have "REQUEST_DB (run True ?evs one_pending) ''t1'' = Some \<lparr>status = ''denied''\<rparr>"
    by (simp only: final db2)
  ultimately show ?thesis using fresh pend by blast
qed

subsection \<open>Encoding and decoding the coordinates\<close>

lemma py_singleton: "py [c] = [cp c]"
  by (simp add: py_def)

lemma cp_in_py: "(cp c \<in> set (py s)) = (c \<in> set s)"
  by (auto simp: py_def)

lemma tokens_Nil: "tokens [] = []"
  by (simp add: tokens.simps)

lemma tokens_tag:
  assumes "cp CHR ''>'' \<notin> set n"
  shows "tokens (cp CHR ''<'' # n @ cp CHR ''>'' # rest) = Tag n # tokens rest"
proof -
  have a: "\<And>x. x \<in> set n \<Longrightarrow> x \<noteq> cp CHR ''>''" using assms by auto
  have "takeWhile (\<lambda>x. x \<noteq> cp CHR ''>'') (n @ cp CHR ''>'' # rest) = n"
    using takeWhile_append2 [of n "\<lambda>x. x \<noteq> cp CHR ''>''" "cp CHR ''>'' # rest"] a by simp
  moreover have "dropWhile (\<lambda>x. x \<noteq> cp CHR ''>'') (n @ cp CHR ''>'' # rest) = cp CHR ''>'' # rest"
    using dropWhile_append2 [of n "\<lambda>x. x \<noteq> cp CHR ''>''" "cp CHR ''>'' # rest"] a by simp
  ultimately show ?thesis by (simp add: tokens.simps)
qed

lemma tokens_text:
  assumes "s \<noteq> []" and "cp CHR ''<'' \<notin> set s"
  shows "tokens (s @ cp CHR ''<'' # rest) = Text s # tokens (cp CHR ''<'' # rest)"
proof -
  from assms(1) obtain c cs where s: "s = c # cs" by (cases s) auto
  with assms(2) have c: "c \<noteq> cp CHR ''<''" and a: "\<And>x. x \<in> set cs \<Longrightarrow> x \<noteq> cp CHR ''<''"
    by auto
  have t: "takeWhile (\<lambda>x. x \<noteq> cp CHR ''<'') (cs @ cp CHR ''<'' # rest) = cs"
    using takeWhile_append2 [of cs "\<lambda>x. x \<noteq> cp CHR ''<''" "cp CHR ''<'' # rest"] a by simp
  have d: "dropWhile (\<lambda>x. x \<noteq> cp CHR ''<'') (cs @ cp CHR ''<'' # rest) = cp CHR ''<'' # rest"
    using dropWhile_append2 [of cs "\<lambda>x. x \<noteq> cp CHR ''<''" "cp CHR ''<'' # rest"] a by simp
  have "tokens (c # cs @ cp CHR ''<'' # rest) = Text (c # cs) # tokens (cp CHR ''<'' # rest)"
    using c by (simp add: tokens.simps(2) [of c] t d)
  with s show ?thesis by simp
qed

lemma tokens_start_tag:
  assumes "CHR ''>'' \<notin> set tg"
  shows "tokens (start_tag tg @ rest) = Tag (py tg) # tokens rest"
proof -
  from assms have "cp CHR ''>'' \<notin> set (py tg)" by (simp add: cp_in_py)
  from tokens_tag [OF this, of rest] show ?thesis
    by (simp add: start_tag_def py_singleton)
qed

lemma tokens_end_tag:
  assumes "CHR ''>'' \<notin> set tg"
  shows "tokens (end_tag tg @ rest) = Tag (py (CHR ''/'' # tg)) # tokens rest"
proof -
  from assms have "cp CHR ''>'' \<notin> set (py (CHR ''/'' # tg))" by (simp add: cp_in_py)
  from tokens_tag [OF this, of rest] show ?thesis
    by (simp add: end_tag_def py_def)
qed

lemma tokens_empty_tag:
  assumes "CHR ''>'' \<notin> set tg"
  shows "tokens (empty_elem_tag tg @ rest) = Tag (py (tg @ '' /'')) # tokens rest"
proof -
  from assms have "cp CHR ''>'' \<notin> set (py (tg @ '' /''))" by (simp add: cp_in_py)
  from tokens_tag [OF this, of rest] show ?thesis
    by (simp add: empty_elem_tag_def py_def)
qed

lemma tokens_leaf:
  assumes "CHR ''>'' \<notin> set tg"
  shows "tokens (xml_leaf tg s @ rest) =
     (if s = [] then [Tag (py (tg @ '' /''))]
      else [Tag (py tg), Text (escape_text s), Tag (py (CHR ''/'' # tg))]) @ tokens rest"
proof (cases "s = []")
  case True
  with tokens_empty_tag [OF assms] show ?thesis by (simp add: xml_leaf_def)
next
  case False
  then have ne: "escape_text s \<noteq> []" by simp
  have lt: "cp CHR ''<'' \<notin> set (escape_text s)" by (simp add: escape_text_no_markup)
  obtain tl where tl: "end_tag tg @ rest = cp CHR ''<'' # tl"
    by (simp add: end_tag_def py_def)
  have "tokens (xml_leaf tg s @ rest) = Tag (py tg) # tokens (escape_text s @ end_tag tg @ rest)"
    using False tokens_start_tag [OF assms, of "escape_text s @ end_tag tg @ rest"]
    by (simp add: xml_leaf_def)
  also have "tokens (escape_text s @ end_tag tg @ rest) = Text (escape_text s) # tokens (end_tag tg @ rest)"
    unfolding tl by (rule tokens_text [OF ne lt])
  also have "tokens (end_tag tg @ rest) = Tag (py (CHR ''/'' # tg)) # tokens rest"
    by (rule tokens_end_tag [OF assms])
  finally show ?thesis using False by simp
qed

text \<open>The tokens of a completed document.\<close>

lemma tokens_completed:
  "tokens (start_tag ''LocationRequest'' @ xml_leaf ''RequestID'' rid @
           xml_leaf ''Status'' (py ''completed'') @
           (start_tag ''Coordinates'' @ xml_leaf ''Latitude'' lat @
            xml_leaf ''Longitude'' lon @ end_tag ''Coordinates'') @
           end_tag ''LocationRequest'') =
   Tag (py ''LocationRequest'') #
   (if rid = [] then [Tag (py ''RequestID /'')]
    else [Tag (py ''RequestID''), Text (escape_text rid), Tag (py ''/RequestID'')]) @
   [Tag (py ''Status''), Text (py ''completed''), Tag (py ''/Status''), Tag (py ''Coordinates'')] @
   (if lat = [] then [Tag (py ''Latitude /'')]
    else [Tag (py ''Latitude''), Text (escape_text lat), Tag (py ''/Latitude'')]) @
   (if lon = [] then [Tag (py ''Longitude /'')]
    else [Tag (py ''Longitude''), Text (escape_text lon), Tag (py ''/Longitude'')]) @
   [Tag (py ''/Coordinates''), Tag (py ''/LocationRequest'')]"
proof -
  have st: "escape_text (py ''completed'') = py ''completed''"
    by (simp add: py_def escape_text_Cons escape_text_Nil)
  have last: "tokens (end_tag ''LocationRequest'') = [Tag (py ''/LocationRequest'')]"
    using tokens_end_tag [of "''LocationRequest''" "[]"] by (simp add: tokens_Nil)
  have "tokens (start_tag ''LocationRequest'' @ xml_leaf ''RequestID'' rid @
           xml_leaf ''Status'' (py ''completed'') @
           start_tag ''Coordinates'' @ xml_leaf ''Latitude'' lat @
           xml_leaf ''Longitude'' lon @ end_tag ''Coordinates'' @
           end_tag ''LocationRequest'') =
   Tag (py ''LocationRequest'') #
   (if rid = [] then [Tag (py ''RequestID /'')]
    else [Tag (py ''RequestID''), Text (escape_text rid), Tag (py ''/RequestID'')]) @
   [Tag (py ''Status''), Text (py ''completed''), Tag (py ''/Status''), Tag (py ''Coordinates'')] @
   (if lat = [] then [Tag (py ''Latitude /'')]
    else [Tag (py ''Latitude''), Text (escape_text lat), Tag (py ''/Latitude'')]) @
   (if lon = [] then [Tag (py ''Longitude /'')]
    else [Tag (py ''Longitude''), Text (escape_text lon), Tag (py ''/Longitude'')]) @
   [Tag (py ''/Coordinates''), Tag (py ''/LocationRequest'')]"
    by (simp add: tokens_start_tag tokens_leaf tokens_end_tag last st)
  then show ?thesis by simp
qed

text \<open>
  For any location object and whatever its \<open>lat\<close> and \<open>lon\<close> are, the decoder finds in the
  document exactly the texts that \<open>str\<close> gave for them (an empty text is written as an
  empty element, and is not found).
\<close>

lemma decode_texts:
  assumes "kvs \<noteq> []"
    and "py_str (dict_get kvs ''lat'') \<noteq> []" and "py_str (dict_get kvs ''lon'') \<noteq> []"
  shows "\<exists>doc. generate_xml_response rid ''completed'' (JObj kvs) err = Inr doc
      \<and> element_text ''Latitude'' (tokens doc) = Some (py_str (dict_get kvs ''lat''))
      \<and> element_text ''Longitude'' (tokens doc) = Some (py_str (dict_get kvs ''lon''))"
proof -
  let ?lat = "py_str (dict_get kvs ''lat'')" and ?lon = "py_str (dict_get kvs ''lon'')"
  let ?doc = "start_tag ''LocationRequest'' @ xml_leaf ''RequestID'' rid @
           xml_leaf ''Status'' (py ''completed'') @
           (start_tag ''Coordinates'' @ xml_leaf ''Latitude'' ?lat @
            xml_leaf ''Longitude'' ?lon @ end_tag ''Coordinates'') @
           end_tag ''LocationRequest''"
  have g: "generate_xml_response rid ''completed'' (JObj kvs) err = Inr ?doc"
    using assms(1) by (rule gen_completed_dict)
  have lat: "element_text ''Latitude'' (tokens ?doc) = Some ?lat"
    unfolding tokens_completed using assms(2,3)
    by (cases "rid = []") (simp_all add: unescape_escape_text)
  have lon: "element_text ''Longitude'' (tokens ?doc) = Some ?lon"
    unfolding tokens_completed using assms(2,3)
    by (cases "rid = []") (simp_all add: unescape_escape_text)
  from g lat lon show ?thesis by blast
qed



















subsection \<open>Escaping and well-formedness\<close>

lemma xml_char_name_start: "name_start_char c \<Longrightarrow> xml_char c"
  unfolding name_start_char_def xml_char_def cp_def by simp arith

lemma xml_char_name_char: "name_char c \<Longrightarrow> xml_char c"
proof (cases "name_start_char c")
  case True
  then show ?thesis by (rule xml_char_name_start)
next
  case False
  assume "name_char c"
  with False show ?thesis
    unfolding name_char_def xml_char_def cp_def by simp arith
qed

lemma xml_name_chars: "xml_name n \<Longrightarrow> list_all xml_char n"
  by (cases n) (auto simp: xml_name_def list_all_iff xml_char_name_start xml_char_name_char)

lemma char_data_chars: "char_data s \<Longrightarrow> list_all xml_char s"
  by (auto simp: char_data_def list_all_iff)

lemma entity_ref_chars: "entity_ref r \<Longrightarrow> list_all xml_char r"
  by (auto simp: entity_ref_def xml_char_def py_def cp_def)

lemma markup_chars:
  "list_all xml_char (py ''<'')" "list_all xml_char (py ''>'')"
  "list_all xml_char (py ''</'')" "list_all xml_char (py '' />'')"
  by (simp_all add: xml_char_def py_def cp_def)

text \<open>A well-formed text contains legal characters only.\<close>

lemma wf_chars:
  shows "wf_content s \<Longrightarrow> list_all xml_char s"
    and "wf_element el \<Longrightarrow> list_all xml_char el"
proof (induction rule: wf_content_wf_element.inducts)
  case (text_only s)
  then show ?case by (rule char_data_chars)
next
  case (then_ref s r rest)
  then show ?case by (simp add: char_data_chars entity_ref_chars)
next
  case (then_element s el rest)
  then show ?case by (simp add: char_data_chars)
next
  case (empty_tag n)
  then show ?case by (simp add: xml_name_chars markup_chars)
next
  case (tagged n c)
  then show ?case by (simp add: xml_name_chars markup_chars)
qed

lemma char_data_Nil: "char_data []"
  by (simp add: char_data_def py_def)

lemma char_data_Cons:
  assumes "char_data s" and "cp CHR ''>'' \<notin> set s"
    and "xml_char c" and "c \<noteq> cp CHR ''<''" and "c \<noteq> cp CHR ''&''" and "c \<noteq> cp CHR ''>''"
  shows "char_data (c # s)"
proof -
  have "\<not> sublist (py '']]>'') (c # s)"
  proof
    assume "sublist (py '']]>'') (c # s)"
    then have "set (py '']]>'') \<subseteq> set (c # s)" by (rule set_mono_sublist)
    moreover have "cp CHR ''>'' \<in> set (py '']]>'')" by (simp add: py_def)
    ultimately have "cp CHR ''>'' \<in> set (c # s)" by blast
    with assms(2,6) show False by auto
  qed
  with assms show ?thesis by (simp add: char_data_def)
qed

lemma wf_content_Cons:
  assumes "wf_content rest" and "cp CHR ''>'' \<notin> set rest"
    and "xml_char c" and "c \<noteq> cp CHR ''<''" and "c \<noteq> cp CHR ''&''" and "c \<noteq> cp CHR ''>''"
  shows "wf_content (c # rest)"
  using assms(1)
proof (cases rule: wf_content.cases)
  case text_only
  with assms have "char_data (c # rest)" by (simp add: char_data_Cons)
  then show ?thesis by (rule wf_content_wf_element.text_only)
next
  case (then_ref s r rest')
  with assms have "char_data (c # s)" by (simp add: char_data_Cons)
  from wf_content_wf_element.then_ref [OF this then_ref(3,4)] then_ref(1)
  show ?thesis by simp
next
  case (then_element s el rest')
  with assms have "char_data (c # s)" by (simp add: char_data_Cons)
  from wf_content_wf_element.then_element [OF this then_element(3,4)] then_element(1)
  show ?thesis by simp
qed

lemma wf_content_ref: "entity_ref r \<Longrightarrow> wf_content rest \<Longrightarrow> wf_content (r @ rest)"
  using wf_content_wf_element.then_ref [OF char_data_Nil] by simp

lemma wf_content_element: "wf_element el \<Longrightarrow> wf_content rest \<Longrightarrow> wf_content (el @ rest)"
  using wf_content_wf_element.then_element [OF char_data_Nil] by simp

lemma wf_content_Nil: "wf_content []"
  by (rule wf_content_wf_element.text_only) (rule char_data_Nil)

lemma wf_content_escape_text: "list_all xml_char s \<Longrightarrow> wf_content (escape_text s)"
proof (induction s)
  case Nil
  then show ?case by (simp add: escape_text_Nil wf_content_Nil)
next
  case (Cons c cs)
  then have rest: "wf_content (escape_text cs)" and c: "xml_char c" by simp_all
  have gt: "cp CHR ''>'' \<notin> set (escape_text cs)" by (simp add: escape_text_no_markup)
  consider "c = cp CHR ''&''" | "c = cp CHR ''<''" | "c = cp CHR ''>''"
    | "c \<noteq> cp CHR ''&''" "c \<noteq> cp CHR ''<''" "c \<noteq> cp CHR ''>''" by blast
  then show ?case
  proof cases
    case 1
    have "wf_content (py ''&amp;'' @ escape_text cs)"
      by (rule wf_content_ref [OF _ rest]) (simp add: entity_ref_def)
    with 1 show ?thesis by (simp add: escape_text_Cons)
  next
    case 2
    have "wf_content (py ''&lt;'' @ escape_text cs)"
      by (rule wf_content_ref [OF _ rest]) (simp add: entity_ref_def)
    with 2 show ?thesis by (simp add: escape_text_Cons)
  next
    case 3
    have "wf_content (py ''&gt;'' @ escape_text cs)"
      by (rule wf_content_ref [OF _ rest]) (simp add: entity_ref_def)
    with 3 show ?thesis by (simp add: escape_text_Cons)
  next
    case 4
    with wf_content_Cons [OF rest gt c] show ?thesis by (simp add: escape_text_Cons)
  qed
qed

lemma wf_element_node:
  assumes "xml_name (py tg)" and "wf_content c"
  shows "wf_element (start_tag tg @ c @ end_tag tg)"
  using wf_content_wf_element.tagged [OF assms] by (simp add: start_tag_def end_tag_def)

lemma wf_element_leaf:
  assumes "xml_name (py tg)" and "list_all xml_char s"
  shows "wf_element (xml_leaf tg s)"
proof (cases "s = []")
  case True
  with wf_content_wf_element.empty_tag [OF assms(1)] show ?thesis
    by (simp add: xml_leaf_def empty_elem_tag_def)
next
  case False
  with wf_element_node [OF assms(1) wf_content_escape_text [OF assms(2)]]
  show ?thesis by (simp add: xml_leaf_def)
qed

lemma tag_names:
  "xml_name (py ''LocationRequest'')" "xml_name (py ''RequestID'')" "xml_name (py ''Status'')"
  "xml_name (py ''Coordinates'')" "xml_name (py ''Latitude'')" "xml_name (py ''Longitude'')"
  "xml_name (py ''Message'')"
  by (simp_all add: xml_name_def name_start_char_def name_char_def py_def cp_def)

lemma well_formed_root:
  assumes "wf_content c"
  shows "well_formed (start_tag ''LocationRequest'' @ c @ end_tag ''LocationRequest'')"
  using wf_element_node [OF tag_names(1) assms] by (simp add: well_formed_def)

lemma wf_content_leaf:
  "xml_name (py tg) \<Longrightarrow> list_all xml_char s \<Longrightarrow> wf_content rest \<Longrightarrow>
   wf_content (xml_leaf tg s @ rest)"
  by (rule wf_content_element) (rule wf_element_leaf)

lemma status_chars:
  "list_all xml_char (py ''pending'')" "list_all xml_char (py ''denied'')"
  "list_all xml_char (py ''completed'')"
  "list_all xml_char (py ''Location has not been provided by the user yet.'')"
  by (simp_all add: xml_char_def py_def cp_def)

lemma well_formed_pending:
  assumes "list_all xml_char rid"
    and "generate_xml_response rid ''pending'' loc err = Inr doc"
  shows "well_formed doc"
proof -
  let ?msg = "py ''Location has not been provided by the user yet.''"
  have "doc = start_tag ''LocationRequest'' @
      (xml_leaf ''RequestID'' rid @ xml_leaf ''Status'' (py ''pending'') @
       xml_leaf ''Message'' ?msg @ [])
      @ end_tag ''LocationRequest''"
    using assms(2) by (simp add: gen_pending)
  then show ?thesis
    using assms(1) status_chars
    by (simp only: well_formed_root wf_content_leaf tag_names wf_content_Nil)
qed

lemma well_formed_other:
  assumes "list_all xml_char rid" and "list_all xml_char (py st)"
    and "st \<noteq> ''completed''" and "st \<noteq> ''denied''" and "st \<noteq> ''pending''"
    and "generate_xml_response rid st loc err = Inr doc"
  shows "well_formed doc"
proof -
  have "doc = start_tag ''LocationRequest'' @
      (xml_leaf ''RequestID'' rid @ xml_leaf ''Status'' (py st) @ [])
      @ end_tag ''LocationRequest''"
    using assms(3-6) by (simp add: gen_other)
  then show ?thesis
    using assms(1,2) by (simp only: well_formed_root wf_content_leaf tag_names wf_content_Nil)
qed

lemma well_formed_denied:
  assumes "list_all xml_char rid"
    and "\<forall>m. err = JStr m \<longrightarrow> list_all xml_char m"
    and "generate_xml_response rid ''denied'' loc err = Inr doc"
  shows "well_formed doc"
proof (cases "truthy err")
  case False
  have "doc = start_tag ''LocationRequest'' @
      (xml_leaf ''RequestID'' rid @ xml_leaf ''Status'' (py ''denied'') @ [])
      @ end_tag ''LocationRequest''"
    using assms(3) False by (simp add: gen_denied_silent)
  then show ?thesis
    using assms(1) status_chars
    by (simp only: well_formed_root wf_content_leaf tag_names wf_content_Nil)
next
  case True
  show ?thesis
  proof (cases "\<exists>m. err = JStr m")
    case False
    with True assms(3) show ?thesis by (simp add: gen_denied_raises)
  next
    case ex: True
    then obtain m where m: "err = JStr m" by blast
    with True have ne: "m \<noteq> []" by simp
    from m assms(2) have legal: "list_all xml_char m" by simp
    have "doc = start_tag ''LocationRequest'' @
        (xml_leaf ''RequestID'' rid @ xml_leaf ''Status'' (py ''denied'') @
         xml_leaf ''Message'' m @ [])
        @ end_tag ''LocationRequest''"
      using assms(3) m ne by (simp add: gen_denied_reason)
    then show ?thesis
      using assms(1) status_chars legal
      by (simp only: well_formed_root wf_content_leaf tag_names wf_content_Nil)
  qed
qed

lemma well_formed_completed:
  assumes "list_all xml_char rid"
    and "\<forall>kvs. loc = JObj kvs \<longrightarrow>
           list_all xml_char (py_str (dict_get kvs ''lat''))
           \<and> list_all xml_char (py_str (dict_get kvs ''lon''))"
    and "truthy loc"
    and "generate_xml_response rid ''completed'' loc err = Inr doc"
  shows "well_formed doc"
proof (cases "\<exists>kvs. loc = JObj kvs")
  case False
  with assms(3,4) show ?thesis by (simp add: gen_completed_raises)
next
  case True
  then obtain kvs where kvs: "loc = JObj kvs" by blast
  with assms(3) have ne: "kvs \<noteq> []" by simp
  let ?lat = "py_str (dict_get kvs ''lat'')" and ?lon = "py_str (dict_get kvs ''lon'')"
  from kvs assms(2) have legal: "list_all xml_char ?lat" "list_all xml_char ?lon" by simp_all
  have coords: "wf_element (start_tag ''Coordinates'' @
      (xml_leaf ''Latitude'' ?lat @ xml_leaf ''Longitude'' ?lon @ []) @ end_tag ''Coordinates'')"
    using wf_element_node [OF tag_names(4), of "xml_leaf ''Latitude'' ?lat @ xml_leaf ''Longitude'' ?lon @ []"]
      legal
    by (simp only: wf_content_leaf tag_names wf_content_Nil)
  have "doc = start_tag ''LocationRequest'' @
      (xml_leaf ''RequestID'' rid @ xml_leaf ''Status'' (py ''completed'') @
       (start_tag ''Coordinates'' @ (xml_leaf ''Latitude'' ?lat @ xml_leaf ''Longitude'' ?lon @ [])
          @ end_tag ''Coordinates'') @ [])
      @ end_tag ''LocationRequest''"
    using assms(4) kvs ne by (simp add: gen_completed_dict)
  then show ?thesis
    using assms(1) status_chars coords
    by (simp only: well_formed_root wf_content_leaf wf_content_element tag_names wf_content_Nil)
qed

text \<open>
  Claim C9, as the code has it. \<open>generate_xml_response\<close> is a function of its four
  arguments. Every text it places goes through \<open>_escape_cdata\<close>, which replaces \<open>&\<close>, \<open><\<close>
  and \<open>>\<close>, so no text adds markup, and the document is well-formed whenever the request
  id, the status, the denial reason (for a denied status) and the printed coordinates (for
  a completed status) consist of code points that XML allows: \<open>Char\<close> of XML 1.0, which
  leaves out the control characters below U+0020 other than tab, line feed and carriage
  return, the surrogates U+D800 to U+DFFF, U+FFFE and U+FFFF. Nothing removes or encodes
  the code points outside \<open>Char\<close>: a control character in the reason is written as it is.
\<close>

theorem escaped_document_well_formed:
  assumes "generate_xml_response rid st loc err = Inr doc"
    and "list_all xml_char rid" and "list_all xml_char (py st)"
    and "st = ''denied'' \<longrightarrow> (\<forall>m. err = JStr m \<longrightarrow> list_all xml_char m)"
    and "st = ''completed'' \<longrightarrow> (\<forall>kvs. loc = JObj kvs \<longrightarrow>
           list_all xml_char (py_str (dict_get kvs ''lat''))
           \<and> list_all xml_char (py_str (dict_get kvs ''lon'')))"
  shows "well_formed doc
    \<and> cp CHR ''<'' \<notin> set (escape_text s) \<and> cp CHR ''>'' \<notin> set (escape_text s)
    \<and> (list_all xml_char s \<longrightarrow> wf_content (escape_text s))"
proof -
  have "well_formed doc"
  proof (cases "st = ''completed'' \<and> truthy loc")
    case True
    with assms(1,2,5) show ?thesis using well_formed_completed by blast
  next
    case nc: False
    show ?thesis
    proof (cases "st = ''denied''")
      case True
      with assms(1,2,4) show ?thesis using well_formed_denied by blast
    next
      case nd: False
      show ?thesis
      proof (cases "st = ''pending''")
        case True
        with assms(1,2) show ?thesis using well_formed_pending by blast
      next
        case np: False
        show ?thesis
        proof (cases "st = ''completed''")
          case False
          with nd np assms(1,2,3) show ?thesis using well_formed_other by blast
        next
          case True
          with nc have f: "\<not> truthy loc" by simp
          have "doc = start_tag ''LocationRequest'' @
              (xml_leaf ''RequestID'' rid @ xml_leaf ''Status'' (py ''completed'') @ [])
              @ end_tag ''LocationRequest''"
            using assms(1) True f by (simp add: gen_completed_no_location)
          then show ?thesis
            using assms(2) status_chars
            by (simp only: well_formed_root wf_content_leaf tag_names wf_content_Nil)
        qed
      qed
    qed
  qed
  then show ?thesis
    by (simp add: escape_text_no_markup wf_content_escape_text)
qed

theorem escaped_document_well_formed_witness:
  "generate_xml_response (py ''t1'') ''denied'' JNull (JStr (py ''a<b & c>d'' @ [0x20AC, 0x1F600])) =
     Inr (py ''<LocationRequest><RequestID>t1</RequestID><Status>denied</Status><Message>a&lt;b &amp; c&gt;d''
          @ [0x20AC, 0x1F600] @ py ''</Message></LocationRequest>'')
   \<and> list_all xml_char (py ''t1'') \<and> list_all xml_char (py ''denied'')
   \<and> list_all xml_char (py ''a<b & c>d'' @ [0x20AC, 0x1F600])
   \<and> well_formed (py ''<LocationRequest><RequestID>t1</RequestID><Status>denied</Status><Message>a&lt;b &amp; c&gt;d''
          @ [0x20AC, 0x1F600] @ py ''</Message></LocationRequest>'')
   \<and> escape_text (py ''a<b & c>d'' @ [0x20AC, 0x1F600]) = py ''a&lt;b &amp; c&gt;d'' @ [0x20AC, 0x1F600]
   \<and> wf_content (py ''a&lt;b &amp; c&gt;d'' @ [0x20AC, 0x1F600])"
proof -
  let ?m = "py ''a<b & c>d'' @ [0x20AC, 0x1F600]"
  let ?doc = "py ''<LocationRequest><RequestID>t1</RequestID><Status>denied</Status><Message>a&lt;b &amp; c&gt;d''
          @ [0x20AC, 0x1F600] @ py ''</Message></LocationRequest>''"
  have e: "escape_text ?m = py ''a&lt;b &amp; c&gt;d'' @ [0x20AC, 0x1F600]"
    by (simp add: doc_simps cp_def)
  have ne: "?m \<noteq> []" by simp
  have "start_tag ''LocationRequest'' @ xml_leaf ''RequestID'' (py ''t1'') @
          xml_leaf ''Status'' (py ''denied'') @ xml_leaf ''Message'' ?m @
          end_tag ''LocationRequest'' = ?doc"
    unfolding xml_leaf_def e by (simp add: doc_simps)
  with gen_denied_reason [OF ne, of "py ''t1''" JNull]
  have g: "generate_xml_response (py ''t1'') ''denied'' JNull (JStr ?m) = Inr ?doc"
    by simp
  have l: "list_all xml_char (py ''t1'')" "list_all xml_char (py ''denied'')" "list_all xml_char ?m"
    by (simp_all add: xml_char_def py_def cp_def)
  have h4: "''denied'' = ''denied'' \<longrightarrow> (\<forall>m. JStr ?m = JStr m \<longrightarrow> list_all xml_char m)"
    using l(3) by simp
  have h5: "''denied'' = ''completed'' \<longrightarrow> (\<forall>kvs. JNull = JObj kvs \<longrightarrow>
           list_all xml_char (py_str (dict_get kvs ''lat''))
           \<and> list_all xml_char (py_str (dict_get kvs ''lon'')))" by simp
  from escaped_document_well_formed [OF g l(1) l(2) h4 h5, of ?m] l(3) e
  have "well_formed ?doc" and "wf_content (py ''a&lt;b &amp; c&gt;d'' @ [0x20AC, 0x1F600])"
    by simp_all
  with g l e show ?thesis by blast
qed

theorem control_character_not_well_formed:
  "generate_xml_response (py ''t1'') ''denied'' JNull (JStr [0x01]) =
     Inr (py ''<LocationRequest><RequestID>t1</RequestID><Status>denied</Status><Message>'' @
          [0x01] @ py ''</Message></LocationRequest>'')
   \<and> \<not> well_formed (py ''<LocationRequest><RequestID>t1</RequestID><Status>denied</Status><Message>'' @
          [0x01] @ py ''</Message></LocationRequest>'')"
proof -
  let ?doc = "py ''<LocationRequest><RequestID>t1</RequestID><Status>denied</Status><Message>'' @
          [0x01] @ py ''</Message></LocationRequest>''"
  have "start_tag ''LocationRequest'' @ xml_leaf ''RequestID'' (py ''t1'') @
          xml_leaf ''Status'' (py ''denied'') @ xml_leaf ''Message'' [0x01] @
          end_tag ''LocationRequest'' = ?doc"
    by (simp add: doc_simps cp_def)
  with gen_denied_reason [of "[0x01]" "py ''t1''" JNull]
  have g: "generate_xml_response (py ''t1'') ''denied'' JNull (JStr [0x01]) = Inr ?doc"
    by simp
  have "\<not> xml_char 0x01" by (simp add: xml_char_def)
  then have "\<not> list_all xml_char ?doc" by simp
  with wf_chars(2) [of ?doc] have "\<not> well_formed ?doc"
    unfolding well_formed_def by blast
  with g show ?thesis by blast
qed

text \<open>The same for every code point outside \<open>Char\<close>, among them the lone surrogates and U+FFFF, which are above U+0020.\<close>

lemma illegal_code_point_not_well_formed:
  "\<not> xml_char c \<Longrightarrow> c \<in> set m \<Longrightarrow>
   generate_xml_response rid ''denied'' loc (JStr m) = Inr doc \<Longrightarrow> \<not> well_formed doc"
proof -
  assume c: "\<not> xml_char c" "c \<in> set m"
    and g: "generate_xml_response rid ''denied'' loc (JStr m) = Inr doc"
  from c(2) have ne: "m \<noteq> []" by auto
  have keep: "c \<in> set (escape_text m)"
    using c by (induction m) (auto simp: escape_text_Cons xml_char_def cp_def)
  from g ne have "doc = start_tag ''LocationRequest'' @ xml_leaf ''RequestID'' rid @
          xml_leaf ''Status'' (py ''denied'') @ xml_leaf ''Message'' m @
          end_tag ''LocationRequest''"
    by (simp add: gen_denied_reason)
  with keep ne have "c \<in> set doc" by (simp add: xml_leaf_def)
  with c(1) have "\<not> list_all xml_char doc" by (auto simp: list_all_iff)
  with wf_chars(2) [of doc] show "\<not> well_formed doc"
    unfolding well_formed_def by blast
qed

subsection \<open>The scenario of the specification\<close>

text \<open>
  A pending token, then a submission with latitude 37.77 and longitude -122.41: the stored
  document is the one the specification gives, and fetching returns exactly it.
\<close>

lemma scenario_completed:
  "files (snd (submit_location
       (JObj [(py ''token'', JStr (py ''t1'')),
              (py ''location'', JObj [(py ''lat'', JFloat ''37.77''), (py ''lon'', JFloat ''-122.41'')]),
              (py ''error'', JNull)]) Write_ok one_pending)) (filepath (py ''t1'')) =
     Some (Document (py ''<LocationRequest><RequestID>t1</RequestID><Status>completed</Status><Coordinates><Latitude>37.77</Latitude><Longitude>-122.41</Longitude></Coordinates></LocationRequest>''))
   \<and> fst (get_location_xml (py ''t1'') (snd (submit_location
       (JObj [(py ''token'', JStr (py ''t1'')),
              (py ''location'', JObj [(py ''lat'', JFloat ''37.77''), (py ''lon'', JFloat ''-122.41'')]),
              (py ''error'', JNull)]) Write_ok one_pending))) =
     Inr (Xml (py ''<LocationRequest><RequestID>t1</RequestID><Status>completed</Status><Coordinates><Latitude>37.77</Latitude><Longitude>-122.41</Longitude></Coordinates></LocationRequest>''), 200)"
proof -
  let ?loc = "[(py ''lat'', JFloat ''37.77''), (py ''lon'', JFloat ''-122.41'')]"
  let ?kvs = "[(py ''token'', JStr (py ''t1'')), (py ''location'', JObj ?loc), (py ''error'', JNull)]"
  let ?doc = "py ''<LocationRequest><RequestID>t1</RequestID><Status>completed</Status><Coordinates><Latitude>37.77</Latitude><Longitude>-122.41</Longitude></Coordinates></LocationRequest>''"
  have h1: "dict_get ?kvs ''token'' = JStr (py ''t1'')" by (simp add: dict_get_def)
  have h3: "REQUEST_DB one_pending ''t1'' = Some \<lparr>status = ''pending''\<rparr>"
    by (simp add: one_pending_def)
  have l: "dict_get ?kvs ''location'' = JObj ?loc" by (simp add: dict_get_def)
  have g: "generate_xml_response (py ''t1'') ''completed'' (JObj ?loc) JNull = Inr ?doc"
    by (simp add: gen_completed_dict dict_get_def py_str_def doc_simps)
  have p: "\<not> print_raises (py ''Location received for t1: '' @ py_str (JObj ?loc))"
    by (simp add: print_raises_def py_str_def py_def repr_str_def repr_char_def
        isprintable_def is_surrogate_def cp_def)
  have c: "\<not> list_ex is_surrogate ?doc" by (rule py_no_surrogate)
  have n: "cp (CHR 0x0D) \<notin> set ?doc" by (simp add: py_def)
  from submit_known_pending [OF h1 _ h3, of Write_ok] l g p
  have "submit_location (JObj ?kvs) Write_ok one_pending =
      (Inr received, write_result (filepath (py ''t1'')) ?doc Write_ok
                       (set_status ''t1'' ''completed'' one_pending))"
    by simp
  then have stored: "files (snd (submit_location (JObj ?kvs) Write_ok one_pending)) (filepath (py ''t1''))
      = Some (Document ?doc)"
    using c by (simp add: files_write_ok)
  from get_location_file [OF stored] universal_newlines_id [OF n]
  have "fst (get_location_xml (py ''t1'') (snd (submit_location (JObj ?kvs) Write_ok one_pending)))
      = Inr (Xml ?doc, 200)"
    by simp
  with stored show ?thesis by blast
qed

end
